theory Spec2Isabelle
  imports Main
begin

section \<open>The MSSQL table naming advisor (package mssql)\<close>

subsection \<open>Go strings and formatting verbs\<close>

text \<open>
  A Go string is a sequence of bytes, and \<^verbatim>\<open>len\<close> counts bytes: the model is
  \<^typ>\<open>string\<close>, a list of 8-bit characters, with \<^const>\<open>length\<close>.
\<close>

definition HasPrefix :: "string \<Rightarrow> string \<Rightarrow> bool" where
  "HasPrefix s p = (take (length p) s = p)"

definition HasSuffix :: "string \<Rightarrow> string \<Rightarrow> bool" where
  "HasSuffix s p = (length p \<le> length s \<and> drop (length s - length p) s = p)"

text \<open>The verb \<^verbatim>\<open>%d\<close> on an int: decimal digits, with a sign for a negative number.\<close>

definition digit_char :: "nat \<Rightarrow> char" where
  "digit_char d = ''0123456789abcdef'' ! d"

fun decimal :: "nat \<Rightarrow> string" where
  "decimal n = (if n < 10 then [digit_char n] else decimal (n div 10) @ [digit_char (n mod 10)])"

declare decimal.simps [simp del]

definition fmt_d :: "int \<Rightarrow> string" where
  "fmt_d i = (if i < 0 then CHR ''-'' # decimal (nat (- i)) else decimal (nat i))"

text \<open>
  The verb \<^verbatim>\<open>%q\<close> on a value with a \<^verbatim>\<open>String\<close> method prints
  \<^verbatim>\<open>strconv.Quote\<close> of that string. Quote reads the string rune by rune, decoding
  UTF-8. \<open>DecodeRuneInString\<close> gives the rune and its width in bytes, and the rune
  \<open>RuneError\<close> with width 1 for a byte that starts no valid encoding (a stray
  continuation byte, a truncated or overlong sequence, a surrogate, a value above
  0x10FFFF).
\<close>

definition RuneError :: nat where
  "RuneError = 0xFFFD"

definition continuation :: "nat \<Rightarrow> bool" where
  "continuation b = (0x80 \<le> b \<and> b \<le> 0xBF)"

text \<open>The range the second byte must lie in, by the first byte.\<close>

definition second_lo :: "nat \<Rightarrow> nat" where
  "second_lo b0 = (if b0 = 0xE0 then 0xA0 else if b0 = 0xF0 then 0x90 else 0x80)"

definition second_hi :: "nat \<Rightarrow> nat" where
  "second_hi b0 = (if b0 = 0xED then 0x9F else if b0 = 0xF4 then 0x8F else 0xBF)"

fun DecodeRuneInString :: "string \<Rightarrow> nat \<times> nat" where
  "DecodeRuneInString [] = (RuneError, 0)"
| "DecodeRuneInString (c # cs) =
     (let b0 = (of_char c :: nat) in
      if b0 < 0x80 then (b0, 1)
      else if 0xC2 \<le> b0 \<and> b0 \<le> 0xDF then
        (case cs of
           c1 # rest \<Rightarrow>
             (let b1 = (of_char c1 :: nat) in
              if continuation b1 then ((b0 mod 32) * 64 + b1 mod 64, 2) else (RuneError, 1))
         | [] \<Rightarrow> (RuneError, 1))
      else if 0xE0 \<le> b0 \<and> b0 \<le> 0xEF then
        (case cs of
           c1 # c2 # rest \<Rightarrow>
             (let b1 = (of_char c1 :: nat); b2 = (of_char c2 :: nat) in
              if second_lo b0 \<le> b1 \<and> b1 \<le> second_hi b0 \<and> continuation b2
              then ((b0 mod 16) * 4096 + (b1 mod 64) * 64 + b2 mod 64, 3)
              else (RuneError, 1))
         | _ \<Rightarrow> (RuneError, 1))
      else if 0xF0 \<le> b0 \<and> b0 \<le> 0xF4 then
        (case cs of
           c1 # c2 # c3 # rest \<Rightarrow>
             (let b1 = (of_char c1 :: nat); b2 = (of_char c2 :: nat); b3 = (of_char c3 :: nat) in
              if second_lo b0 \<le> b1 \<and> b1 \<le> second_hi b0 \<and> continuation b2 \<and> continuation b3
              then ((b0 mod 8) * 262144 + (b1 mod 64) * 4096 + (b2 mod 64) * 64 + b3 mod 64, 4)
              else (RuneError, 1))
         | _ \<Rightarrow> (RuneError, 1))
      else (RuneError, 1))"

text \<open>
  \<^verbatim>\<open>strconv.IsPrint\<close>: decided by comparisons up to 0xFF, and by tables above. The
  tables are not reproduced; they are the parameter \<open>tables\<close>.
\<close>

definition IsPrint :: "(nat \<Rightarrow> bool) \<Rightarrow> nat \<Rightarrow> bool" where
  "IsPrint tables r =
     (if r \<le> 0xFF then
        (if 0x20 \<le> r \<and> r \<le> 0x7E then True
         else if 0xA1 \<le> r \<and> r \<le> 0xFF then r \<noteq> 0xAD
         else False)
      else tables r)"

definition ValidRune :: "nat \<Rightarrow> bool" where
  "ValidRune r = (r < 0xD800 \<or> (0xDFFF < r \<and> r \<le> 0x10FFFF))"

text \<open>The hexadecimal digits of \<open>r\<close> at the given places, 0 for the least significant.\<close>

definition hex_digits :: "nat list \<Rightarrow> nat \<Rightarrow> string" where
  "hex_digits places r = map (\<lambda>k. digit_char ((r div 16 ^ k) mod 16)) places"

text \<open>
  \<^verbatim>\<open>appendEscapedRune\<close> for the double quote as the quote character: \<open>enc\<close> is the
  encoding of the rune, which is appended as it is for a printable rune.
\<close>

definition appendEscapedRune :: "(nat \<Rightarrow> bool) \<Rightarrow> nat \<Rightarrow> string \<Rightarrow> string" where
  "appendEscapedRune tables r enc =
     (if r = 0x22 \<or> r = 0x5C then [CHR 0x5C, char_of r]
      else if IsPrint tables r then enc
      else if r = 0x07 then [CHR 0x5C, CHR ''a'']
      else if r = 0x08 then [CHR 0x5C, CHR ''b'']
      else if r = 0x0C then [CHR 0x5C, CHR ''f'']
      else if r = 0x0A then [CHR 0x5C, CHR ''n'']
      else if r = 0x0D then [CHR 0x5C, CHR ''r'']
      else if r = 0x09 then [CHR 0x5C, CHR ''t'']
      else if r = 0x0B then [CHR 0x5C, CHR ''v'']
      else if r < 0x20 \<or> r = 0x7F then [CHR 0x5C, CHR ''x''] @ hex_digits [1, 0] r
      else if \<not> ValidRune r then [CHR 0x5C, CHR ''u''] @ hex_digits [3, 2, 1, 0] RuneError
      else if r < 0x10000 then [CHR 0x5C, CHR ''u''] @ hex_digits [3, 2, 1, 0] r
      else [CHR 0x5C, CHR ''U''] @ hex_digits [7, 6, 5, 4, 3, 2, 1, 0] r)"

text \<open>
  The loop of \<^verbatim>\<open>appendQuotedWith\<close>: a byte that decodes to \<open>RuneError\<close> with width 1
  is written as \<^verbatim>\<open>\x\<close> and its two hexadecimal digits; any other rune goes through
  \<open>appendEscapedRune\<close>, and the loop goes on after the bytes of the rune.
\<close>

fun quote_runes :: "(nat \<Rightarrow> bool) \<Rightarrow> string \<Rightarrow> string" where
  "quote_runes tables [] = []"
| "quote_runes tables (c # cs) =
     (let r = fst (DecodeRuneInString (c # cs)); width = snd (DecodeRuneInString (c # cs)) in
      if width = 1 \<and> r = RuneError
      then [CHR 0x5C, CHR ''x''] @ hex_digits [1, 0] (of_char c) @ quote_runes tables cs
      else appendEscapedRune tables r (take width (c # cs))
             @ quote_runes tables (drop (width - 1) cs))"

definition Quote :: "(nat \<Rightarrow> bool) \<Rightarrow> string \<Rightarrow> string" where
  "Quote tables s = [CHR 0x22] @ quote_runes tables s @ [CHR 0x22]"

subsection \<open>Regular expressions of Go's regexp package\<close>

text \<open>
  A compiled \<^verbatim>\<open>*regexp.Regexp\<close> keeps the source text of the pattern, which its
  \<^verbatim>\<open>String\<close> method returns, and the program that matches it. The program is given
  here as syntax for the fragment the naming rules use: literal bytes, byte ranges,
  concatenation, alternation, star, plus, the empty match and the anchors of the start and
  the end of the text.
\<close>

datatype rx =
    Lit char
  | Range char char
  | Cat rx rx
  | Alt rx rx
  | Star rx
  | Plus rx
  | EmptyMatch
  | BeginText
  | EndText

record Regexp =
  expr :: string
  prog :: rx

text \<open>
  \<open>ends r s i\<close> lists the positions where a match of \<open>r\<close> that starts at position \<open>i\<close>
  of \<open>s\<close> can end. A repetition is closed under further rounds; a round that reaches no
  new position adds nothing, so \<open>length s\<close> rounds are enough.
\<close>

fun rounds :: "(nat \<Rightarrow> nat list) \<Rightarrow> nat \<Rightarrow> nat list \<Rightarrow> nat list" where
  "rounds f 0 ps = ps"
| "rounds f (Suc k) ps =
     ps @ rounds f k (remdups (filter (\<lambda>q. q \<notin> set ps) (concat (map f ps))))"

primrec ends :: "rx \<Rightarrow> string \<Rightarrow> nat \<Rightarrow> nat list" where
  "ends (Lit c) s i = (if i < length s \<and> s ! i = c then [Suc i] else [])"
| "ends (Range a b) s i =
     (if i < length s \<and> (of_char a :: nat) \<le> of_char (s ! i) \<and> (of_char (s ! i) :: nat) \<le> of_char b
      then [Suc i] else [])"
| "ends (Cat r1 r2) s i = concat (map (ends r2 s) (ends r1 s i))"
| "ends (Alt r1 r2) s i = ends r1 s i @ ends r2 s i"
| "ends (Star r) s i = rounds (ends r s) (length s) [i]"
| "ends (Plus r) s i = rounds (ends r s) (length s) (ends r s i)"
| "ends EmptyMatch s i = [i]"
| "ends BeginText s i = (if i = 0 then [i] else [])"
| "ends EndText s i = (if i = length s then [i] else [])"

text \<open>
  \<^verbatim>\<open>MatchString\<close> reports whether the string contains any match of the regular
  expression: the match may start at any position and end at any position.
  \<open>match_from r s i\<close> tries the start positions from \<open>i\<close> down to 0.
\<close>

fun match_from :: "rx \<Rightarrow> string \<Rightarrow> nat \<Rightarrow> bool" where
  "match_from r s 0 = (ends r s 0 \<noteq> [])"
| "match_from r s (Suc i) = (ends r s (Suc i) \<noteq> [] \<or> match_from r s i)"

definition MatchString :: "Regexp \<Rightarrow> string \<Rightarrow> bool" where
  "MatchString re s = match_from (prog re) s (length s)"

subsection \<open>Advice\<close>

datatype Status = Success | Warn | Error

datatype Code = Ok | NamingTableConventionMismatch

record Advice =
  Status :: Status
  Code :: Code
  Title :: string
  Content :: string
  Line :: int

datatype error = Errorf string

subsection \<open>The parse tree\<close>

text \<open>
  The contexts of the T-SQL parser, with the accessors the advisor calls. An accessor the
  advisor tests against nil is an option; one it calls without a test is a plain field.
  An identifier context is its source text; a terminal is its text.
\<close>

type_synonym Id_Context = string

record Create_tableContext =
  Table_name_GetTable_GetText :: string
  Create_table_GetStart_GetLine :: int

datatype ConstantContext = ConstantContext (STRING: "string option")

datatype Execute_parameterContext =
  Execute_parameterContext (Constant: "ConstantContext option")

datatype Execute_statement_arg_unnamedContext =
  Execute_statement_arg_unnamedContext (Execute_parameter: "Execute_parameterContext option")

datatype Execute_statement_argContext =
  Execute_statement_argContext
    (Execute_statement_arg_unnamed: "Execute_statement_arg_unnamedContext option")
    (AllExecute_statement_arg: "Execute_statement_argContext list")

datatype Func_proc_name_schemaContext =
  Func_proc_name_schemaContext (GetSchema: "Id_Context option") (GetProcedure: "Id_Context option")

datatype Func_proc_name_database_schemaContext =
  Func_proc_name_database_schemaContext
    (Func_proc_name_schema: "Func_proc_name_schemaContext option")

datatype Func_proc_name_server_database_schemaContext =
  Func_proc_name_server_database_schemaContext
    (Func_proc_name_database_schema: "Func_proc_name_database_schemaContext option")

record Execute_bodyContext =
  Func_proc_name_server_database_schema :: "Func_proc_name_server_database_schemaContext option"
  Execute_statement_arg :: "Execute_statement_argContext option"
  Execute_body_GetStart_GetLine :: int

text \<open>The indexed accessor of the generated parser: the i-th child of that kind, or nil.\<close>

definition Execute_statement_arg_at ::
  "Execute_statement_argContext \<Rightarrow> nat \<Rightarrow> Execute_statement_argContext option" where
  "Execute_statement_arg_at a i =
     (if i < length (AllExecute_statement_arg a) then Some (AllExecute_statement_arg a ! i) else None)"

text \<open>
  A tree is a rule node with its children, a terminal or an error node. The rule nodes the
  listener reacts to carry their context; every other rule is \<open>OtherRule\<close>.
\<close>

datatype Tree =
    Create_table Create_tableContext "Tree list"
  | Execute_body Execute_bodyContext "Tree list"
  | OtherRule "Tree list"
  | TerminalNode
  | ErrorNode

subsection \<open>Functions of other packages\<close>

text \<open>
  What Check and the listener use of other packages and is not reproduced here: the three
  functions of the advisor and parser packages that they call, and the tables of
  \<^verbatim>\<open>strconv.IsPrint\<close> for the runes above 0xFF. They are parameters.
\<close>

record advisor_funcs =
  NewStatusBySQLReviewRuleLevel :: "string \<Rightarrow> error + Status"
  UnmarshalNamingRulePayloadAsRegexp :: "string \<Rightarrow> error + (Regexp \<times> int)"
  NormalizedTSqlTableNamePart :: "Id_Context option \<Rightarrow> error + string"
  isPrintTables :: "nat \<Rightarrow> bool"

subsection \<open>The listener\<close>

record namingTableListener =
  level :: Status
  title :: string
  format :: Regexp
  maxLength :: int
  adviceList :: "Advice list"

definition okAdvice :: Advice where
  "okAdvice = \<lparr>Status = Success, Code = Ok, Title = ''OK'', Content = [], Line = 0\<rparr>"

definition generateAdvice :: "namingTableListener \<Rightarrow> error + Advice list" where
  "generateAdvice l =
     Inr (if length (adviceList l) = 0 then adviceList l @ [okAdvice] else adviceList l)"

text \<open>
  The two statements both handlers end with: the format check and then the length check,
  each appending one Advice.
\<close>

definition formatAdvice :: "advisor_funcs \<Rightarrow> namingTableListener \<Rightarrow> string \<Rightarrow> int \<Rightarrow> Advice" where
  "formatAdvice fs l tableName line =
     \<lparr>Status = level l, Code = NamingTableConventionMismatch, Title = title l,
      Content = tableName @ '' mismatches table naming convention, naming format should be ''
                  @ Quote (isPrintTables fs) (expr (format l)),
      Line = line\<rparr>"

definition lengthAdvice :: "namingTableListener \<Rightarrow> string \<Rightarrow> int \<Rightarrow> Advice" where
  "lengthAdvice l tableName line =
     \<lparr>Status = level l, Code = NamingTableConventionMismatch, Title = title l,
      Content = tableName @ '' mismatches table naming convention, its length should be within ''
                  @ fmt_d (maxLength l) @ '' characters'',
      Line = line\<rparr>"

definition checkFormat :: "advisor_funcs \<Rightarrow> namingTableListener \<Rightarrow> string \<Rightarrow> int \<Rightarrow> namingTableListener" where
  "checkFormat fs l tableName line =
     (if \<not> MatchString (format l) tableName
      then l\<lparr>adviceList := adviceList l @ [formatAdvice fs l tableName line]\<rparr>
      else l)"

definition checkLength :: "namingTableListener \<Rightarrow> string \<Rightarrow> int \<Rightarrow> namingTableListener" where
  "checkLength l tableName line =
     (if maxLength l > 0 \<and> int (length tableName) > maxLength l
      then l\<lparr>adviceList := adviceList l @ [lengthAdvice l tableName line]\<rparr>
      else l)"

definition EnterCreate_table :: "advisor_funcs \<Rightarrow> namingTableListener \<Rightarrow> Create_tableContext \<Rightarrow> namingTableListener" where
  "EnterCreate_table fs l ctx =
     (let tableName = Table_name_GetTable_GetText ctx
      in checkLength (checkFormat fs l tableName (Create_table_GetStart_GetLine ctx))
           tableName (Create_table_GetStart_GetLine ctx))"

text \<open>
  The chain of nil tests on an argument: its unnamed form, the parameter, the constant and
  the string terminal, whose text is returned.
\<close>

definition STRING_GetText :: "Execute_statement_argContext \<Rightarrow> string option" where
  "STRING_GetText a =
     (case Execute_statement_arg_unnamed a of None \<Rightarrow> None | Some u \<Rightarrow>
     (case Execute_parameter u of None \<Rightarrow> None | Some p \<Rightarrow>
     (case Constant p of None \<Rightarrow> None | Some c \<Rightarrow> STRING c)))"

text \<open>
  The slice \<^verbatim>\<open>newTableName[1 : len(newTableName)-1]\<close> panics when the bounds cross,
  which happens for the text made of one quote: \<open>None\<close> is that panic.
\<close>

definition unquote :: "string \<Rightarrow> string option" where
  "unquote newTableName =
     (if HasPrefix newTableName [CHR 0x27] \<and> HasSuffix newTableName [CHR 0x27]
      then (if 1 \<le> length newTableName - 1
            then Some (take (length newTableName - 1 - 1) (drop 1 newTableName))
            else None)
      else Some newTableName)"

text \<open>
  The handler of an execute body. The state is the listener and the log; \<open>None\<close> is a
  panic. The function that normalises the procedure name is outside this package and is a
  parameter.
\<close>

definition EnterExecute_body ::
  "advisor_funcs \<Rightarrow> namingTableListener \<times> string list \<Rightarrow>
   Execute_bodyContext \<Rightarrow> (namingTableListener \<times> string list) option" where
  "EnterExecute_body fs st ctx =
     (case Func_proc_name_server_database_schema ctx of None \<Rightarrow> Some st | Some sds \<Rightarrow>
     (case Func_proc_name_database_schema sds of None \<Rightarrow> Some st | Some ds \<Rightarrow>
     (case Func_proc_name_schema ds of None \<Rightarrow> Some st | Some sc \<Rightarrow>
      if GetSchema sc \<noteq> None then Some st else
     (case NormalizedTSqlTableNamePart fs (GetProcedure sc) of
        Inl (Errorf msg) \<Rightarrow>
          Some (fst st, snd st @ [''failed to normalize procedure name: '' @ msg])
      | Inr normalizedProcedureName \<Rightarrow>
      if normalizedProcedureName \<noteq> ''sp_rename'' then Some st else
     (case Execute_statement_arg ctx of None \<Rightarrow> Some st | Some firstArgument \<Rightarrow>
      if STRING_GetText firstArgument = None then Some st else
      if length (AllExecute_statement_arg firstArgument) \<noteq> 1 then Some st else
     (case Execute_statement_arg_at firstArgument 0 of None \<Rightarrow> Some st | Some secondArgument \<Rightarrow>
     (case STRING_GetText secondArgument of None \<Rightarrow> Some st | Some text \<Rightarrow>
     (case unquote text of None \<Rightarrow> None | Some newTableName \<Rightarrow>
        Some (checkLength (checkFormat fs (fst st) newTableName (Execute_body_GetStart_GetLine ctx))
                newTableName (Execute_body_GetStart_GetLine ctx),
              snd st)))))))))"

text \<open>
  The walker enters a rule node, then walks its children in order; terminals and error
  nodes reach handlers the listener leaves empty.
\<close>

fun Walk ::
  "advisor_funcs \<Rightarrow> namingTableListener \<times> string list \<Rightarrow> Tree \<Rightarrow>
   (namingTableListener \<times> string list) option"
and WalkChildren ::
  "advisor_funcs \<Rightarrow> namingTableListener \<times> string list \<Rightarrow> Tree list \<Rightarrow>
   (namingTableListener \<times> string list) option" where
  "Walk fs st (Create_table ctx ts) = WalkChildren fs (EnterCreate_table fs (fst st) ctx, snd st) ts"
| "Walk fs st (Execute_body ctx ts) =
     (case EnterExecute_body fs st ctx of None \<Rightarrow> None | Some st' \<Rightarrow> WalkChildren fs st' ts)"
| "Walk fs st (OtherRule ts) = WalkChildren fs st ts"
| "Walk fs st TerminalNode = Some st"
| "Walk fs st ErrorNode = Some st"
| "WalkChildren fs st [] = Some st"
| "WalkChildren fs st (t # ts) =
     (case Walk fs st t of None \<Rightarrow> None | Some st' \<Rightarrow> WalkChildren fs st' ts)"

subsection \<open>Check\<close>

text \<open>The rule of the context, and the context.\<close>

record SQLReviewRule =
  Type :: string
  Level :: string
  Payload :: string

record Context =
  AST :: "Tree option"
  Rule :: SQLReviewRule

text \<open>
  \<open>AST ctx = None\<close> stands for a value that is not a tree. The result is the returned
  pair, an error or the list, with the log; \<open>None\<close> is a panic. The statement text, the
  second argument, is not read.
\<close>

definition Check ::
  "advisor_funcs \<Rightarrow> Context \<Rightarrow> string \<Rightarrow> string list \<Rightarrow> ((error + Advice list) \<times> string list) option" where
  "Check fs ctx statement lg =
     (case AST ctx of None \<Rightarrow> Some (Inl (Errorf ''failed to convert to Tree''), lg) | Some tree \<Rightarrow>
     (case NewStatusBySQLReviewRuleLevel fs (Level (Rule ctx)) of
        Inl err \<Rightarrow> Some (Inl err, lg)
      | Inr lvl \<Rightarrow>
     (case UnmarshalNamingRulePayloadAsRegexp fs (Payload (Rule ctx)) of
        Inl err \<Rightarrow> Some (Inl err, lg)
      | Inr (fmt, maxLen) \<Rightarrow>
     (case Walk fs
             (\<lparr>level = lvl, title = Type (Rule ctx), format = fmt, maxLength = maxLen,
               adviceList = []\<rparr>, lg) tree of
        None \<Rightarrow> None
      | Some (listener, lg') \<Rightarrow> Some (generateAdvice listener, lg')))))"

subsection \<open>The nodes a walk enters\<close>

text \<open>
  The rule nodes with a handler, in the order the walker enters them (parents before
  children, children left to right), and the run of the handlers over that sequence.
\<close>

datatype entered = EnteredCreate_table Create_tableContext | EnteredExecute_body Execute_bodyContext

fun entered_nodes :: "Tree \<Rightarrow> entered list" where
  "entered_nodes (Create_table ctx ts) = EnteredCreate_table ctx # concat (map entered_nodes ts)"
| "entered_nodes (Execute_body ctx ts) = EnteredExecute_body ctx # concat (map entered_nodes ts)"
| "entered_nodes (OtherRule ts) = concat (map entered_nodes ts)"
| "entered_nodes TerminalNode = []"
| "entered_nodes ErrorNode = []"

fun enter ::
  "advisor_funcs \<Rightarrow> namingTableListener \<times> string list \<Rightarrow> entered \<Rightarrow>
   (namingTableListener \<times> string list) option" where
  "enter fs st (EnteredCreate_table ctx) = Some (EnterCreate_table fs (fst st) ctx, snd st)"
| "enter fs st (EnteredExecute_body ctx) = EnterExecute_body fs st ctx"

fun run ::
  "advisor_funcs \<Rightarrow> namingTableListener \<times> string list \<Rightarrow> entered list \<Rightarrow>
   (namingTableListener \<times> string list) option" where
  "run fs st [] = Some st"
| "run fs st (e # es) = (case enter fs st e of None \<Rightarrow> None | Some st' \<Rightarrow> run fs st' es)"

text \<open>
  What the lexer guarantees of a string terminal: a T-SQL string literal has its opening and
  its closing quote, so its text is never the single quote character alone. A tree is
  \<open>lexed\<close> when every string terminal among the arguments of its execute bodies is such a
  text, and a context is \<open>accepted\<close> when its tree, if it is one, is lexed.
\<close>

fun arg_lexed :: "Execute_statement_argContext \<Rightarrow> bool" where
  "arg_lexed (Execute_statement_argContext u as) =
     ((case STRING_GetText (Execute_statement_argContext u as) of
         None \<Rightarrow> True | Some text \<Rightarrow> text \<noteq> [CHR 0x27])
      \<and> list_all arg_lexed as)"

fun entered_lexed :: "entered \<Rightarrow> bool" where
  "entered_lexed (EnteredCreate_table ctx) = True"
| "entered_lexed (EnteredExecute_body ctx) =
     (case Execute_statement_arg ctx of None \<Rightarrow> True | Some a \<Rightarrow> arg_lexed a)"

definition lexed :: "Tree \<Rightarrow> bool" where
  "lexed tree = list_all entered_lexed (entered_nodes tree)"

definition accepted :: "Context \<Rightarrow> bool" where
  "accepted ctx = (case AST ctx of None \<Rightarrow> True | Some tree \<Rightarrow> lexed tree)"

definition mismatches :: "Advice list \<Rightarrow> bool" where
  "mismatches as = list_all (\<lambda>a. Code a = NamingTableConventionMismatch) as"

text \<open>
  A full match, in the words of the specification: a match of the expression that starts
  at the first byte of the name and ends after its last.
\<close>

definition FullMatch :: "rx \<Rightarrow> string \<Rightarrow> bool" where
  "FullMatch r s = (length s \<in> set (ends r s 0))"

subsection \<open>The inputs of the scenarios\<close>

text \<open>
  The format \<^verbatim>\<open>^[a-z]+(_[a-z]+)*$\<close> of the scenarios, the same expression without its
  anchors cut down to \<^verbatim>\<open>[a-z]+\<close>, and functions of the other packages for a rule
  whose payload unmarshals to a given format and maximum length: the level
  \<^verbatim>\<open>ERROR\<close> or \<^verbatim>\<open>WARNING\<close> gives its status, any other level is an error, and an
  identifier is normalised to its text. The formats of the scenarios are ASCII, so the
  tables of the printable runes above 0xFF are never read; the sample has them empty.
\<close>

definition lower :: rx where
  "lower = Range CHR ''a'' CHR ''z''"

definition snake_case :: Regexp where
  "snake_case =
     \<lparr>expr = ''^[a-z]+(_[a-z]+)*$'',
      prog = Cat BeginText (Cat (Cat (Plus lower) (Star (Cat (Lit CHR ''_'') (Plus lower)))) EndText)\<rparr>"

definition some_lower :: Regexp where
  "some_lower = \<lparr>expr = ''[a-z]+'', prog = Plus lower\<rparr>"

definition funcs :: "Regexp \<Rightarrow> int \<Rightarrow> advisor_funcs" where
  "funcs fmt maxLen =
     \<lparr>NewStatusBySQLReviewRuleLevel =
        (\<lambda>lvl. if lvl = ''ERROR'' then Inr Error
              else if lvl = ''WARNING'' then Inr Warn
              else Inl (Errorf (''unexpected rule level type: '' @ lvl))),
      UnmarshalNamingRulePayloadAsRegexp = (\<lambda>payload. Inr (fmt, maxLen)),
      NormalizedTSqlTableNamePart = (\<lambda>v. case v of None \<Rightarrow> Inr [] | Some name \<Rightarrow> Inr name),
      isPrintTables = (\<lambda>r. False)\<rparr>"

definition naming_rule :: "string \<Rightarrow> SQLReviewRule" where
  "naming_rule lvl = \<lparr>Type = ''naming.table'', Level = lvl, Payload = []\<rparr>"

text \<open>
  The contexts of a call: an argument that is a string literal with the arguments nested
  under it, the chain of a qualified name, the call of a procedure by its unqualified
  name, and a text between single quotes. Then the tree of a statement that creates a
  table, the tree of a statement that executes a call, the context of a naming.table rule
  of a given level, and a listener of level Warn with no Advice yet.
\<close>

definition string_arg :: "string \<Rightarrow> Execute_statement_argContext list \<Rightarrow> Execute_statement_argContext" where
  "string_arg text nested =
     Execute_statement_argContext
       (Some (Execute_statement_arg_unnamedContext
          (Some (Execute_parameterContext (Some (ConstantContext (Some text)))))))
       nested"

definition name_chain ::
  "Id_Context option \<Rightarrow> Id_Context option \<Rightarrow> Func_proc_name_server_database_schemaContext" where
  "name_chain schema procedure =
     Func_proc_name_server_database_schemaContext
       (Some (Func_proc_name_database_schemaContext
          (Some (Func_proc_name_schemaContext schema procedure))))"

definition proc_call ::
  "Id_Context \<Rightarrow> Execute_statement_argContext option \<Rightarrow> int \<Rightarrow> Execute_bodyContext" where
  "proc_call procedure args line =
     \<lparr>Func_proc_name_server_database_schema = Some (name_chain None (Some procedure)),
      Execute_statement_arg = args,
      Execute_body_GetStart_GetLine = line\<rparr>"

definition quoted :: "string \<Rightarrow> string" where
  "quoted s = [CHR 0x27] @ s @ [CHR 0x27]"

definition create_table_stmt :: "string \<Rightarrow> int \<Rightarrow> Tree" where
  "create_table_stmt name line =
     OtherRule [Create_table
       \<lparr>Table_name_GetTable_GetText = name, Create_table_GetStart_GetLine = line\<rparr> [TerminalNode]]"

definition execute_stmt :: "Execute_bodyContext \<Rightarrow> Tree" where
  "execute_stmt ctx = OtherRule [Execute_body ctx [TerminalNode]]"

definition context_of :: "Tree \<Rightarrow> string \<Rightarrow> Context" where
  "context_of tree lvl = \<lparr>AST = Some tree, Rule = naming_rule lvl\<rparr>"

definition listener_of :: "Regexp \<Rightarrow> int \<Rightarrow> namingTableListener" where
  "listener_of fmt maxLen =
     \<lparr>level = Warn, title = ''naming.table'', format = fmt, maxLength = maxLen, adviceList = []\<rparr>"

text \<open>
  A step of the walk is independent of the log when the listener it returns, or its panic,
  is the same whatever the log holds.
\<close>

definition log_independent ::
  "(namingTableListener \<times> string list \<Rightarrow> (namingTableListener \<times> string list) option) \<Rightarrow> bool" where
  "log_independent f = (\<forall>l lg1 lg2. map_option fst (f (l, lg1)) = map_option fst (f (l, lg2)))"

section \<open>The rule configuration schema (sqlReview.ts)\<close>

subsection \<open>Values and payloads\<close>

text \<open>
  The values a payload field holds. A value that may be \<^verbatim>\<open>undefined\<close> is an option,
  with \<open>None\<close> for \<^verbatim>\<open>undefined\<close>; a number is an integer.
\<close>

datatype jsvalue = JNull | JBool bool | JNumber int | JString string | JStringArray "string list"

text \<open>The operator \<^verbatim>\<open>??\<close> and the truth test of \<^verbatim>\<open>!value\<close>.\<close>

definition nullish_or :: "jsvalue option \<Rightarrow> jsvalue \<Rightarrow> jsvalue" where
  "nullish_or v d = (case v of None \<Rightarrow> d | Some JNull \<Rightarrow> d | Some x \<Rightarrow> x)"

definition falsy :: "jsvalue option \<Rightarrow> bool" where
  "falsy v =
     (case v of
        None \<Rightarrow> True
      | Some JNull \<Rightarrow> True
      | Some (JBool b) \<Rightarrow> \<not> b
      | Some (JNumber n) \<Rightarrow> n = 0
      | Some (JString s) \<Rightarrow> s = []
      | Some (JStringArray xs) \<Rightarrow> False)"

datatype SQLReviewRuleLevel = LEVEL_UNSPECIFIED | ERROR | WARNING | DISABLED

text \<open>
  The payload of a component: the union of StringPayload, NumberPayload, BooleanPayload,
  StringArrayPayload and TemplatePayload, told apart by the string in \<^verbatim>\<open>type\<close>.
\<close>

record ComponentPayload =
  payload_type :: string
  payload_default :: jsvalue
  templateList :: "string list option"
  payload_value :: "jsvalue option"

record RuleConfigComponent =
  key :: string
  payload :: ComponentPayload

text \<open>
  The stored rule and the rule template. The stored payload is a JSON object, a map from
  field names to values, so that the order of the fields plays no part. The engine is an
  enumeration of another module and is a type parameter.
\<close>

record 'e SchemaPolicyRule =
  rule_type :: string
  rule_level :: SQLReviewRuleLevel
  rule_engine :: 'e
  rule_payload :: "(string \<rightharpoonup> jsvalue) option"
  rule_comment :: string

record 'e RuleTemplateV2 =
  template_type :: string
  category :: string
  template_engine :: 'e
  template_level :: SQLReviewRuleLevel
  componentList :: "RuleConfigComponent list"
  template_comment :: "string option"

datatype exn = JsError string

definition Invalid_rule :: "string \<Rightarrow> exn" where
  "Invalid_rule t = JsError (''Invalid rule '' @ t)"

text \<open>
  \<^verbatim>\<open>componentList.find((c) => c.payload.type === ty)\<close>, and the component rebuilt by
  the two spreads with a new \<^verbatim>\<open>value\<close>.
\<close>

definition find_component :: "string \<Rightarrow> RuleConfigComponent list \<Rightarrow> RuleConfigComponent option" where
  "find_component ty components = List.find (\<lambda>c. payload_type (payload c) = ty) components"

definition with_value :: "RuleConfigComponent \<Rightarrow> jsvalue option \<Rightarrow> RuleConfigComponent" where
  "with_value c v = c\<lparr>payload := (payload c)\<lparr>payload_value := v\<rparr>\<rparr>"

text \<open>The rule types that share one case of the two switches.\<close>

definition string_number_rules :: "string list" where
  "string_number_rules = [''naming.column'', ''naming.column.auto-increment'', ''naming.table'']"

definition template_number_rules :: "string list" where
  "template_number_rules = [''naming.index.idx'', ''naming.index.uk'', ''naming.index.fk'']"

definition string_array_rules :: "string list" where
  "string_array_rules =
     [''column.type-disallow-list'', ''index.primary-key-type-allowlist'',
      ''index.type-allow-list'', ''system.charset.allowlist'', ''system.collation.allowlist'',
      ''system.function.disallowed-list'', ''table.disallow-dml'', ''table.disallow-ddl'']"

definition boolean_number_rules :: "string list" where
  "boolean_number_rules = [''column.comment'', ''table.comment'']"

definition number_rules :: "string list" where
  "number_rules =
     [''statement.insert.row-limit'', ''statement.affected-row-limit'',
      ''column.maximum-character-length'', ''column.maximum-varchar-length'',
      ''column.auto-increment-initial-value'', ''index.key-number-limit'',
      ''index.total-number-limit'', ''system.comment.length'', ''advice.online-migration'',
      ''table.text-fields-total-length'', ''table.limit-size'',
      ''statement.where.maximum-logical-operator-count'', ''statement.maximum-limit-value'',
      ''statement.maximum-join-table-count'', ''statement.maximum-statements-in-transaction'']"

subsection \<open>From the stored rule to the template\<close>

definition convertPolicyRuleToRuleTemplate ::
  "'e SchemaPolicyRule \<Rightarrow> 'e RuleTemplateV2 \<Rightarrow> exn + 'e RuleTemplateV2" where
  "convertPolicyRuleToRuleTemplate policyRule ruleTemplate =
     (if rule_type policyRule \<noteq> template_type ruleTemplate
      then Inl (JsError (''The rule type is not same. policyRule:'' @ template_type ruleTemplate
                  @ '', ruleTemplate:'' @ template_type ruleTemplate))
      else
        let res = ruleTemplate\<lparr>template_engine := rule_engine policyRule,
                    template_level := rule_level policyRule,
                    template_comment := Some (rule_comment policyRule)\<rparr>;
            components = componentList ruleTemplate
        in
        if length components = 0 then Inr res
        else
          let stored = (case rule_payload policyRule of None \<Rightarrow> Map.empty | Some p \<Rightarrow> p);
              stringComponent = find_component ''STRING'' components;
              numberComponent = find_component ''NUMBER'' components;
              booleanComponent = find_component ''BOOLEAN'' components;
              templateComponent = find_component ''TEMPLATE'' components;
              stringArrayComponent = find_component ''STRING_ARRAY'' components;
              t = template_type ruleTemplate
          in
          if t = ''statement.query.minimum-plan-level'' then
            (case stringComponent of
               None \<Rightarrow> Inl (Invalid_rule t)
             | Some sc \<Rightarrow> Inr (res\<lparr>componentList := [with_value sc (stored ''string'')]\<rparr>))
          else if t = ''table.drop-naming-convention'' then
            (case stringComponent of
               None \<Rightarrow> Inl (Invalid_rule t)
             | Some sc \<Rightarrow> Inr (res\<lparr>componentList := [with_value sc (stored ''format'')]\<rparr>))
          else if t \<in> set string_number_rules then
            (case stringComponent of
               None \<Rightarrow> Inl (Invalid_rule t)
             | Some sc \<Rightarrow>
                 (case numberComponent of
                    None \<Rightarrow> Inl (Invalid_rule t)
                  | Some nc \<Rightarrow>
                      Inr (res\<lparr>componentList :=
                        [with_value sc (stored ''format''), with_value nc (stored ''maxLength'')]\<rparr>)))
          else if t = ''naming.index.pk'' then
            (case templateComponent of
               None \<Rightarrow> Inl (Invalid_rule t)
             | Some tc \<Rightarrow> Inr (res\<lparr>componentList := [with_value tc (stored ''format'')]\<rparr>))
          else if t \<in> set template_number_rules then
            (case templateComponent of
               None \<Rightarrow> Inl (Invalid_rule t)
             | Some tc \<Rightarrow>
                 (case numberComponent of
                    None \<Rightarrow> Inl (Invalid_rule t)
                  | Some nc \<Rightarrow>
                      Inr (res\<lparr>componentList :=
                        [with_value tc (stored ''format''), with_value nc (stored ''maxLength'')]\<rparr>)))
          else if t = ''naming.identifier.case'' then
            (case booleanComponent of
               None \<Rightarrow> Inl (Invalid_rule t)
             | Some bc \<Rightarrow> Inr (res\<lparr>componentList := [bc\<lparr>payload := payload bc\<rparr>]\<rparr>))
          else if t = ''column.required'' then
            (let requiredColumnComponent = hd components;
                 columnList = stored ''columnList'';
                 v = (if falsy columnList then stored ''list'' else columnList)
             in Inr (res\<lparr>componentList := [with_value requiredColumnComponent v]\<rparr>))
          else if t \<in> set string_array_rules then
            (case stringArrayComponent of
               None \<Rightarrow> Inl (Invalid_rule t)
             | Some ac \<Rightarrow> Inr (res\<lparr>componentList := [with_value ac (stored ''list'')]\<rparr>))
          else if t \<in> set boolean_number_rules then
            (case booleanComponent of
               None \<Rightarrow> Inl (Invalid_rule t)
             | Some bc \<Rightarrow>
                 (case numberComponent of
                    None \<Rightarrow> Inl (Invalid_rule t)
                  | Some nc \<Rightarrow>
                      Inr (res\<lparr>componentList :=
                        [with_value bc (stored ''required''), with_value nc (stored ''maxLength'')]\<rparr>)))
          else if t \<in> set number_rules then
            (case numberComponent of
               None \<Rightarrow> Inl (Invalid_rule t)
             | Some nc \<Rightarrow> Inr (res\<lparr>componentList := [with_value nc (stored ''number'')]\<rparr>))
          else Inl (Invalid_rule t))"

subsection \<open>From the template to the stored rule\<close>

text \<open>The current value of a component payload, or its default when the value is unset.\<close>

definition current :: "ComponentPayload \<Rightarrow> jsvalue" where
  "current p = nullish_or (payload_value p) (payload_default p)"

definition find_payload :: "string \<Rightarrow> RuleConfigComponent list \<Rightarrow> ComponentPayload option" where
  "find_payload ty components = map_option payload (find_component ty components)"

definition mergeIndividualConfigAsRule ::
  "'e SchemaPolicyRule \<Rightarrow> 'e RuleTemplateV2 \<Rightarrow> exn + 'e SchemaPolicyRule" where
  "mergeIndividualConfigAsRule base template =
     (let components = componentList template;
          stringPayload = find_payload ''STRING'' components;
          numberPayload = find_payload ''NUMBER'' components;
          templatePayload = find_payload ''TEMPLATE'' components;
          booleanPayload = find_payload ''BOOLEAN'' components;
          stringArrayPayload = find_payload ''STRING_ARRAY'' components;
          t = template_type template
      in
      if t = ''statement.query.minimum-plan-level'' then
        (case stringPayload of
           None \<Rightarrow> Inl (Invalid_rule t)
         | Some sp \<Rightarrow> Inr (base\<lparr>rule_payload := Some [''string'' \<mapsto> current sp]\<rparr>))
      else if t = ''table.drop-naming-convention'' then
        (case stringPayload of
           None \<Rightarrow> Inl (Invalid_rule t)
         | Some sp \<Rightarrow> Inr (base\<lparr>rule_payload := Some [''format'' \<mapsto> current sp]\<rparr>))
      else if t \<in> set string_number_rules then
        (case stringPayload of
           None \<Rightarrow> Inl (Invalid_rule t)
         | Some sp \<Rightarrow>
             (case numberPayload of
                None \<Rightarrow> Inl (Invalid_rule t)
              | Some np \<Rightarrow>
                  Inr (base\<lparr>rule_payload :=
                    Some [''format'' \<mapsto> current sp, ''maxLength'' \<mapsto> current np]\<rparr>)))
      else if t = ''naming.index.pk'' then
        (case templatePayload of
           None \<Rightarrow> Inl (Invalid_rule t)
         | Some tp \<Rightarrow> Inr (base\<lparr>rule_payload := Some [''format'' \<mapsto> current tp]\<rparr>))
      else if t \<in> set template_number_rules then
        (case templatePayload of
           None \<Rightarrow> Inl (Invalid_rule t)
         | Some tp \<Rightarrow>
             (case numberPayload of
                None \<Rightarrow> Inl (Invalid_rule t)
              | Some np \<Rightarrow>
                  Inr (base\<lparr>rule_payload :=
                    Some [''format'' \<mapsto> current tp, ''maxLength'' \<mapsto> current np]\<rparr>)))
      else if t = ''naming.identifier.case'' then
        (case booleanPayload of
           None \<Rightarrow> Inl (Invalid_rule t)
         | Some bp \<Rightarrow> Inr (base\<lparr>rule_payload := Some [''upper'' \<mapsto> current bp]\<rparr>))
      else if t \<in> set (''column.required'' # string_array_rules) then
        (case stringArrayPayload of
           None \<Rightarrow> Inl (Invalid_rule t)
         | Some ap \<Rightarrow> Inr (base\<lparr>rule_payload := Some [''list'' \<mapsto> current ap]\<rparr>))
      else if t \<in> set boolean_number_rules then
        (case booleanPayload of
           None \<Rightarrow> Inl (Invalid_rule t)
         | Some bp \<Rightarrow>
             (case numberPayload of
                None \<Rightarrow> Inl (Invalid_rule t)
              | Some np \<Rightarrow>
                  Inr (base\<lparr>rule_payload :=
                    Some [''required'' \<mapsto> current bp, ''maxLength'' \<mapsto> current np]\<rparr>)))
      else if t \<in> set number_rules then
        (case numberPayload of
           None \<Rightarrow> Inl (Invalid_rule t)
         | Some np \<Rightarrow> Inr (base\<lparr>rule_payload := Some [''number'' \<mapsto> current np]\<rparr>))
      else Inl (Invalid_rule t))"

definition convertRuleTemplateToPolicyRule :: "'e RuleTemplateV2 \<Rightarrow> exn + 'e SchemaPolicyRule" where
  "convertRuleTemplateToPolicyRule rule =
     (let base = \<lparr>rule_type = template_type rule, rule_level = template_level rule,
                  rule_engine = template_engine rule, rule_payload = None,
                  rule_comment = (case template_comment rule of None \<Rightarrow> [] | Some c \<Rightarrow> c)\<rparr>
      in if length (componentList rule) = 0 then Inr base
         else mergeIndividualConfigAsRule base rule)"

text \<open>The template made from a stored rule, converted back.\<close>

definition round_trip :: "'e SchemaPolicyRule \<Rightarrow> 'e RuleTemplateV2 \<Rightarrow> exn + 'e SchemaPolicyRule" where
  "round_trip r template =
     (case convertPolicyRuleToRuleTemplate r template of
        Inl e \<Rightarrow> Inl e
      | Inr t \<Rightarrow> convertRuleTemplateToPolicyRule t)"

subsection \<open>What each rule type requires\<close>

text \<open>
  The component kinds the case of a rule type tests for, each with the field of the stored
  payload it is read from and written to, as the two switches have them; \<open>None\<close> for a
  rule type that no case names.
\<close>

definition required_components :: "string \<Rightarrow> (string \<times> string) list option" where
  "required_components t =
     (if t = ''statement.query.minimum-plan-level'' then Some [(''STRING'', ''string'')]
      else if t = ''table.drop-naming-convention'' then Some [(''STRING'', ''format'')]
      else if t \<in> set string_number_rules
        then Some [(''STRING'', ''format''), (''NUMBER'', ''maxLength'')]
      else if t = ''naming.index.pk'' then Some [(''TEMPLATE'', ''format'')]
      else if t \<in> set template_number_rules
        then Some [(''TEMPLATE'', ''format''), (''NUMBER'', ''maxLength'')]
      else if t = ''naming.identifier.case'' then Some [(''BOOLEAN'', ''upper'')]
      else if t \<in> set (''column.required'' # string_array_rules)
        then Some [(''STRING_ARRAY'', ''list'')]
      else if t \<in> set boolean_number_rules
        then Some [(''BOOLEAN'', ''required''), (''NUMBER'', ''maxLength'')]
      else if t \<in> set number_rules then Some [(''NUMBER'', ''number'')]
      else None)"

text \<open>
  A template has the required components when its rule type is named by a case and every
  kind that case tests for is the kind of one of its components.
\<close>

definition has_required_components :: "'e RuleTemplateV2 \<Rightarrow> bool" where
  "has_required_components t =
     (case required_components (template_type t) of
        None \<Rightarrow> False
      | Some ds \<Rightarrow> list_all (\<lambda>d. find_component (fst d) (componentList t) \<noteq> None) ds)"

text \<open>
  A matching template: for a rule type that no case names, a template without components;
  otherwise a template with the required components, whose first component is the string
  array for the rule type \<^verbatim>\<open>column.required\<close>. A well-formed stored rule: no payload for
  a rule type that no case names; otherwise a payload with exactly the fields of that rule
  type, none of them null.
\<close>

definition matching_template :: "'e RuleTemplateV2 \<Rightarrow> bool" where
  "matching_template t =
     (case required_components (template_type t) of
        None \<Rightarrow> componentList t = []
      | Some ds \<Rightarrow>
          has_required_components t \<and>
          (if template_type t = ''column.required''
           then (case componentList t of
                   [] \<Rightarrow> False
                 | c # cs \<Rightarrow> payload_type (payload c) = ''STRING_ARRAY'')
           else True))"

definition well_formed_rule :: "'e SchemaPolicyRule \<Rightarrow> bool" where
  "well_formed_rule r =
     (case required_components (rule_type r) of
        None \<Rightarrow> rule_payload r = None
      | Some ds \<Rightarrow>
          (case rule_payload r of
             None \<Rightarrow> False
           | Some m \<Rightarrow>
               dom m = set (map snd ds) \<and>
               list_all (\<lambda>d. m (snd d) \<noteq> Some JNull) ds))"

text \<open>
  The two switches read as one table: the components of the result template, one for each
  required kind with the stored field as its value, and the fields of the result payload,
  one for each required kind with the current value of its component.
\<close>

definition overlay ::
  "(string \<rightharpoonup> jsvalue) \<Rightarrow> RuleConfigComponent list \<Rightarrow> (string \<times> string) list \<Rightarrow> RuleConfigComponent list" where
  "overlay stored components ds =
     map (\<lambda>d. with_value (the (find_component (fst d) components)) (stored (snd d))) ds"

definition collect ::
  "RuleConfigComponent list \<Rightarrow> (string \<times> string) list \<Rightarrow> (string \<rightharpoonup> jsvalue)" where
  "collect components ds =
     fold (\<lambda>d m. m(snd d \<mapsto> current (the (find_payload (fst d) components)))) ds Map.empty"

definition stored_payload :: "'e SchemaPolicyRule \<Rightarrow> (string \<rightharpoonup> jsvalue)" where
  "stored_payload r = (case rule_payload r of None \<Rightarrow> Map.empty | Some p \<Rightarrow> p)"

subsection \<open>Sample rules and templates\<close>

text \<open>
  A component as the schema declares it, with no value set, a template of a rule type with
  its components, and a stored rule of a rule type with its payload.
\<close>

definition component :: "string \<Rightarrow> string \<Rightarrow> jsvalue \<Rightarrow> RuleConfigComponent" where
  "component k ty d =
     \<lparr>key = k,
      payload = \<lparr>payload_type = ty, payload_default = d, templateList = None, payload_value = None\<rparr>\<rparr>"

definition template_of :: "string \<Rightarrow> RuleConfigComponent list \<Rightarrow> nat RuleTemplateV2" where
  "template_of t components =
     \<lparr>template_type = t, category = ''NAMING'', template_engine = 0, template_level = ERROR,
      componentList = components, template_comment = None\<rparr>"

definition stored_rule :: "string \<Rightarrow> (string \<rightharpoonup> jsvalue) option \<Rightarrow> nat SchemaPolicyRule" where
  "stored_rule t p =
     \<lparr>rule_type = t, rule_level = WARNING, rule_engine = 1, rule_payload = p, rule_comment = []\<rparr>"

definition naming_table_template :: "nat RuleTemplateV2" where
  "naming_table_template =
     template_of ''naming.table''
       [component ''format'' ''STRING'' (JString ''^[a-z]+(_[a-z]+)*$''),
        component ''maxLength'' ''NUMBER'' (JNumber 64)]"

definition identifier_case_template :: "nat RuleTemplateV2" where
  "identifier_case_template =
     template_of ''naming.identifier.case'' [component ''upper'' ''BOOLEAN'' (JBool False)]"

section \<open>Properties of the advisor\<close>

subsection \<open>The walk and the handlers\<close>

lemma run_append:
  "run fs st (xs @ ys) = (case run fs st xs of None \<Rightarrow> None | Some st' \<Rightarrow> run fs st' ys)"
  by (induction xs arbitrary: st) (auto split: option.splits)

lemma Walk_run:
  "Walk fs st t = run fs st (entered_nodes t)"
  "WalkChildren fs st ts = run fs st (concat (map entered_nodes ts))"
  by (induction fs st t and fs st ts rule: Walk_WalkChildren.induct)
     (auto simp: run_append split: option.splits)

lemma checkFormat_fields [simp]:
  "level (checkFormat fs l n ln) = level l"
  "title (checkFormat fs l n ln) = title l"
  "format (checkFormat fs l n ln) = format l"
  "maxLength (checkFormat fs l n ln) = maxLength l"
  by (simp_all add: checkFormat_def)

lemma checkLength_fields [simp]:
  "level (checkLength l n ln) = level l"
  "title (checkLength l n ln) = title l"
  "format (checkLength l n ln) = format l"
  "maxLength (checkLength l n ln) = maxLength l"
  by (simp_all add: checkLength_def)

lemma adviceList_checkFormat:
  "adviceList (checkFormat fs l n ln) =
     adviceList l @ (if MatchString (format l) n then [] else [formatAdvice fs l n ln])"
  by (simp add: checkFormat_def)

lemma adviceList_checkLength:
  "adviceList (checkLength l n ln) =
     adviceList l @ (if maxLength l > 0 \<and> int (length n) > maxLength l then [lengthAdvice l n ln] else [])"
  by (simp add: checkLength_def)

lemma lengthAdvice_checkFormat [simp]: "lengthAdvice (checkFormat fs l n ln) = lengthAdvice l"
  by (simp add: lengthAdvice_def fun_eq_iff)

lemma adviceList_checks:
  "adviceList (checkLength (checkFormat fs l n ln) n ln) =
     adviceList l @ (if MatchString (format l) n then [] else [formatAdvice fs l n ln])
       @ (if maxLength l > 0 \<and> int (length n) > maxLength l then [lengthAdvice l n ln] else [])"
  by (simp add: adviceList_checkLength adviceList_checkFormat)

lemma mismatches_checks:
  "mismatches (adviceList l) \<Longrightarrow> mismatches (adviceList (checkLength (checkFormat fs l n ln) n ln))"
  by (simp add: adviceList_checks mismatches_def formatAdvice_def lengthAdvice_def)

lemma unquote_None: "unquote tok = None \<longleftrightarrow> tok = [CHR 0x27]"
proof (cases tok)
  case Nil
  then show ?thesis by (simp add: unquote_def HasPrefix_def)
next
  case (Cons c cs)
  then show ?thesis
    by (cases cs) (auto simp: unquote_def HasPrefix_def HasSuffix_def)
qed

lemma arg_lexed_nested:
  "arg_lexed a \<Longrightarrow> Execute_statement_arg_at a i = Some b \<Longrightarrow> arg_lexed b"
  by (cases a) (auto simp: Execute_statement_arg_at_def list_all_length split: if_splits)

lemma arg_lexed_text:
  "arg_lexed a \<Longrightarrow> STRING_GetText a = Some tok \<Longrightarrow> unquote tok \<noteq> None"
  by (cases a) (auto simp: unquote_None)

lemma EnterExecute_body_returns:
  assumes "entered_lexed (EnteredExecute_body ctx)"
  shows "EnterExecute_body fs st ctx \<noteq> None"
  using assms
  by (auto simp: EnterExecute_body_def split: option.splits sum.splits error.splits
      dest: arg_lexed_nested arg_lexed_text)

lemma EnterExecute_body_mismatches:
  assumes "EnterExecute_body fs st ctx = Some st'" and "mismatches (adviceList (fst st))"
  shows "mismatches (adviceList (fst st'))"
  using assms
  by (auto simp: EnterExecute_body_def mismatches_checks
      split: option.splits sum.splits error.splits if_splits)

lemma run_returns: "list_all entered_lexed es \<Longrightarrow> run fs st es \<noteq> None"
proof (induction es arbitrary: st)
  case Nil
  then show ?case by simp
next
  case (Cons e es)
  show ?case
  proof (cases e)
    case (EnteredCreate_table c)
    with Cons show ?thesis by simp
  next
    case (EnteredExecute_body c)
    with Cons.prems have "EnterExecute_body fs st c \<noteq> None"
      by (intro EnterExecute_body_returns) simp
    then obtain st1 where "EnterExecute_body fs st c = Some st1" by blast
    with Cons EnteredExecute_body show ?thesis by simp
  qed
qed

lemma run_mismatches:
  "run fs st es = Some st' \<Longrightarrow> mismatches (adviceList (fst st)) \<Longrightarrow> mismatches (adviceList (fst st'))"
proof (induction es arbitrary: st)
  case Nil
  then show ?case by simp
next
  case (Cons e es)
  show ?case
  proof (cases e)
    case (EnteredCreate_table c)
    with Cons.prems have "run fs (EnterCreate_table fs (fst st) c, snd st) es = Some st'" by simp
    moreover have "mismatches (adviceList (fst (EnterCreate_table fs (fst st) c, snd st)))"
      using Cons.prems(2) by (simp add: EnterCreate_table_def Let_def mismatches_checks)
    ultimately show ?thesis by (rule Cons.IH)
  next
    case (EnteredExecute_body c)
    with Cons.prems obtain st1 where s: "EnterExecute_body fs st c = Some st1" "run fs st1 es = Some st'"
      by (auto split: option.splits)
    from s(1) Cons.prems(2) have "mismatches (adviceList (fst st1))"
      by (rule EnterExecute_body_mismatches)
    with s(2) show ?thesis by (rule Cons.IH)
  qed
qed

subsection \<open>Quoting\<close>

lemma of_char_neq:
  "c \<noteq> CHR 0x22 \<Longrightarrow> (of_char c :: nat) \<noteq> 0x22"
  "c \<noteq> CHR 0x5C \<Longrightarrow> (of_char c :: nat) \<noteq> 0x5C"
proof -
  have "(of_char (CHR 0x22) :: nat) = 0x22" "(of_char (CHR 0x5C) :: nat) = 0x5C" by simp_all
  then show "c \<noteq> CHR 0x22 \<Longrightarrow> (of_char c :: nat) \<noteq> 0x22"
    "c \<noteq> CHR 0x5C \<Longrightarrow> (of_char c :: nat) \<noteq> 0x5C"
    by (metis of_char_eq_iff)+
qed

lemma DecodeRuneInString_ascii:
  "(of_char c :: nat) < 0x80 \<Longrightarrow> DecodeRuneInString (c # cs) = (of_char c, 1)"
  by (simp add: Let_def)

lemma appendEscapedRune_printable_ascii:
  assumes "0x20 \<le> r" and "r \<le> 0x7E" and "r \<noteq> 0x22" and "r \<noteq> 0x5C"
  shows "appendEscapedRune tables r enc = enc"
  using assms by (simp add: appendEscapedRune_def IsPrint_def)

lemma quote_runes_printable_ascii:
  assumes "0x20 \<le> (of_char c :: nat)" and "(of_char c :: nat) \<le> 0x7E"
    and "c \<noteq> CHR 0x22" and "c \<noteq> CHR 0x5C"
  shows "quote_runes tables (c # cs) = c # quote_runes tables cs"
proof -
  from assms(2) have d: "DecodeRuneInString (c # cs) = (of_char c, 1)"
    by (intro DecodeRuneInString_ascii) simp
  have e: "appendEscapedRune tables (of_char c) [c] = [c]"
    using assms(1,2) of_char_neq [of c] assms(3,4)
    by (intro appendEscapedRune_printable_ascii) simp_all
  have "of_char c \<noteq> RuneError"
    using assms(2) by (simp add: RuneError_def)
  then show ?thesis
    by (simp only: quote_runes.simps d Let_def fst_conv snd_conv) (simp add: e)
qed

lemma quote_runes_all_printable_ascii:
  "list_all (\<lambda>c. 0x20 \<le> (of_char c :: nat) \<and> (of_char c :: nat) \<le> 0x7E
              \<and> c \<noteq> CHR 0x22 \<and> c \<noteq> CHR 0x5C) s
   \<Longrightarrow> quote_runes tables s = s"
  by (induction s) (simp_all add: quote_runes_printable_ascii del: quote_runes.simps(2))

lemma Decode_nbsp: "DecodeRuneInString [CHR 0xC2, CHR 0xA0] = (0xA0, 2)"
  by (simp add: Let_def continuation_def)

lemma Quote_no_break_space:
  "Quote tables [CHR 0xC2, CHR 0xA0] = [CHR 0x22, CHR 0x5C] @ ''u00a0'' @ [CHR 0x22]"
  by (simp add: Quote_def Decode_nbsp Let_def RuneError_def appendEscapedRune_def IsPrint_def
      ValidRune_def hex_digits_def digit_char_def del: DecodeRuneInString.simps)

subsection \<open>Evaluations the scenarios share\<close>

lemma snake_case_UserOrders: "MatchString snake_case ''UserOrders'' = False"
  by (simp add: MatchString_def snake_case_def lower_def)

lemma snake_case_orders_history: "MatchString snake_case ''orders_history'' = True"
  by (simp add: MatchString_def snake_case_def lower_def)

lemma snake_case_NewTable: "MatchString snake_case ''NewTable'' = False"
  by (simp add: MatchString_def snake_case_def lower_def)

lemma some_lower_UserOrders: "MatchString some_lower ''UserOrders'' = True"
  by (simp add: MatchString_def some_lower_def lower_def)

lemma some_lower_not_full: "FullMatch (prog some_lower) ''UserOrders'' = False"
  by (simp add: FullMatch_def some_lower_def lower_def)

lemma Quote_snake_case:
  "Quote tables (expr snake_case) = [CHR 0x22] @ ''^[a-z]+(_[a-z]+)*$'' @ [CHR 0x22]"
  by (simp add: Quote_def snake_case_def quote_runes_printable_ascii del: quote_runes.simps(2))

lemma fmt_d_5: "fmt_d 5 = ''5''"
  by (simp add: fmt_d_def decimal.simps digit_char_def)

lemma unquote_quoted: "unquote (quoted s) = Some s"
  by (simp add: unquote_def quoted_def HasPrefix_def HasSuffix_def)

lemma STRING_GetText_string_arg [simp]: "STRING_GetText (string_arg tok nested) = Some tok"
  by (simp add: STRING_GetText_def string_arg_def)

lemma AllExecute_statement_arg_string_arg [simp]:
  "AllExecute_statement_arg (string_arg tok nested) = nested"
  by (simp add: string_arg_def)

lemma EnterExecute_body_proc_call:
  assumes "NormalizedTSqlTableNamePart fs (Some p) = Inr ''sp_rename''"
  shows "EnterExecute_body fs st (proc_call p (Some (string_arg old (string_arg new nested # []))) line) =
     (case unquote new of None \<Rightarrow> None
      | Some newTableName \<Rightarrow>
          Some (checkLength (checkFormat fs (fst st) newTableName line) newTableName line, snd st))"
  using assms
  by (simp add: EnterExecute_body_def proc_call_def name_chain_def Execute_statement_arg_at_def
      split: option.splits)

subsection \<open>Anchored expressions\<close>

lemma match_from_BeginText:
  "match_from (Cat BeginText r) s i = (ends r s 0 \<noteq> [])"
  by (induction i) simp_all

lemma concat_select:
  "(concat (map (\<lambda>j. if j = n then [j] else []) js) \<noteq> []) = (n \<in> set js)"
  by (induction js) auto

lemma ends_Cat_EndText:
  "(ends (Cat r EndText) s i \<noteq> []) = (length s \<in> set (ends r s i))"
proof -
  have "ends EndText s = (\<lambda>j. if j = length s then [j] else [])"
    by (rule ext) simp
  then have "ends (Cat r EndText) s i =
        concat (map (\<lambda>j. if j = length s then [j] else []) (ends r s i))"
    by simp
  then show ?thesis by (simp only: concat_select)
qed

lemma MatchString_anchored:
  "MatchString \<lparr>expr = e, prog = Cat BeginText (Cat r EndText)\<rparr> s = FullMatch r s"
  by (simp only: MatchString_def FullMatch_def match_from_BeginText ends_Cat_EndText Regexp.simps)

subsection \<open>Check returns an error or a list that is not empty\<close>

text \<open>
  C1. For every accepted context Check returns, and what it returns is an error or a list
  of Advice that is not empty. When the list holds no Advice of code
  NamingTableConventionMismatch, that is when the walk recorded no violation, it is
  exactly the one Advice of status Success, code Ok, title OK and empty content; otherwise
  every Advice of the list is such a violation.
\<close>

theorem Check_returns_error_or_advice:
  assumes "accepted ctx"
  shows "\<exists>res lg'. Check fs ctx statement lg = Some (res, lg') \<and>
     (case res of Inl err \<Rightarrow> True
      | Inr advices \<Rightarrow> advices \<noteq> [] \<and>
          (if list_ex (\<lambda>a. Code a = NamingTableConventionMismatch) advices
           then list_all (\<lambda>a. Code a = NamingTableConventionMismatch) advices
           else advices = [\<lparr>Status = Success, Code = Ok, Title = ''OK'', Content = [], Line = 0\<rparr>]))"
proof (cases "AST ctx")
  case None
  then show ?thesis by (simp add: Check_def)
next
  case (Some tree)
  with assms have lx: "list_all entered_lexed (entered_nodes tree)"
    by (simp add: accepted_def lexed_def)
  show ?thesis
  proof (cases "NewStatusBySQLReviewRuleLevel fs (Level (Rule ctx))")
    case (Inl err)
    with Some show ?thesis by (simp add: Check_def)
  next
    case lvl: (Inr lvl)
    show ?thesis
    proof (cases "UnmarshalNamingRulePayloadAsRegexp fs (Payload (Rule ctx))")
      case (Inl err)
      with Some lvl show ?thesis by (simp add: Check_def)
    next
      case (Inr fm)
      obtain fmt maxLen where fm: "fm = (fmt, maxLen)" by (cases fm)
      define l0 where "l0 = \<lparr>level = lvl, title = Type (Rule ctx), format = fmt,
        maxLength = maxLen, adviceList = []\<rparr>"
      from lx have "run fs (l0, lg) (entered_nodes tree) \<noteq> None"
        by (rule run_returns)
      then obtain l' lg' where
        r: "run fs (l0, lg) (entered_nodes tree) = Some (l', lg')"
        by auto
      have "mismatches (adviceList (fst (l0, lg)))" by (simp add: l0_def mismatches_def)
      with r have m: "mismatches (adviceList (fst (l', lg')))" by (rule run_mismatches)
      have c: "Check fs ctx statement lg = Some (generateAdvice l', lg')"
        using Some lvl Inr fm r by (simp add: Check_def Walk_run l0_def)
      show ?thesis
      proof (cases "adviceList l'")
        case Nil
        then show ?thesis using c by (simp add: generateAdvice_def okAdvice_def)
      next
        case (Cons a as)
        then show ?thesis using c m by (simp add: generateAdvice_def mismatches_def)
      qed
    qed
  qed
qed

theorem Check_returns_error_or_advice_witness:
  "accepted (context_of (create_table_stmt ''orders_history'' 1) ''WARNING'') \<and>
   Check (funcs snake_case 0) (context_of (create_table_stmt ''orders_history'' 1) ''WARNING'')
     ''CREATE TABLE orders_history (id INT)'' [] =
   Some (Inr [\<lparr>Status = Success, Code = Ok, Title = ''OK'', Content = [], Line = 0\<rparr>], [])"
proof -
  have a: "accepted (context_of (create_table_stmt ''orders_history'' 1) ''WARNING'')"
    by (simp add: accepted_def context_of_def create_table_stmt_def lexed_def)
  show ?thesis
    using a Check_returns_error_or_advice [OF a, of "funcs snake_case 0"
        "''CREATE TABLE orders_history (id INT)''" "[]"]
    by (simp add: Check_def context_of_def create_table_stmt_def funcs_def naming_rule_def
        EnterCreate_table_def Let_def checkFormat_def checkLength_def snake_case_orders_history
        generateAdvice_def okAdvice_def)
qed

subsection \<open>The format check\<close>

text \<open>
  C4, as the specification states it, fails twice. With the format \<^verbatim>\<open>[a-z]+\<close> the
  table UserOrders gets no Advice, although the name does not fully match the format: the
  check asks for a match somewhere in the name. And with the format of Scenario A the
  content of the Advice is not the sentence followed by the pattern: the pattern is
  printed with the verb \<^verbatim>\<open>%q\<close>, as a quoted Go string, between double quotes.
\<close>

theorem format_check_counterexample:
  "adviceList (EnterCreate_table (funcs some_lower 0) (listener_of some_lower 0)
      \<lparr>Table_name_GetTable_GetText = ''UserOrders'', Create_table_GetStart_GetLine = 1\<rparr>) = []
   \<and> \<not> FullMatch (prog some_lower) ''UserOrders''
   \<and> map Content (adviceList (EnterCreate_table (funcs snake_case 0) (listener_of snake_case 0)
      \<lparr>Table_name_GetTable_GetText = ''UserOrders'', Create_table_GetStart_GetLine = 1\<rparr>))
     \<noteq> [''UserOrders mismatches table naming convention, naming format should be ^[a-z]+(_[a-z]+)*$'']"
  by (simp add: EnterCreate_table_def Let_def listener_of_def adviceList_checks
      some_lower_UserOrders some_lower_not_full snake_case_UserOrders formatAdvice_def
      Quote_snake_case)

text \<open>
  C4, amended. Entering a create-table node appends, after the Advice already recorded,
  one Advice for the format when the table name contains no match of the format, and then
  what the length check appends. The Advice has the level of the rule as its status, the
  code NamingTableConventionMismatch, the rule type as its title, the line of the first
  token of the statement, and the content
  \<^verbatim>\<open><name> mismatches table naming convention, naming format should be \<close>
  followed by the pattern as \<^verbatim>\<open>%q\<close> prints it: between double quotes, with every
  double quote and backslash of the pattern behind a backslash and every rune that is not
  printable, and every byte that is not UTF-8, escaped. A pattern of printable ASCII
  characters with no double quote and no backslash stands as it is between the double
  quotes. For a format anchored at both ends, \<^verbatim>\<open>^r$\<close>, containing a match is fully
  matching \<open>r\<close>.
\<close>

theorem EnterCreate_table_format_check:
  "adviceList (EnterCreate_table fs l ctx) =
     adviceList l
     @ (if MatchString (format l) (Table_name_GetTable_GetText ctx) then []
        else [\<lparr>Status = level l, Code = NamingTableConventionMismatch, Title = title l,
               Content = Table_name_GetTable_GetText ctx
                 @ '' mismatches table naming convention, naming format should be ''
                 @ Quote (isPrintTables fs) (expr (format l)),
               Line = Create_table_GetStart_GetLine ctx\<rparr>])
     @ (if maxLength l > 0 \<and> int (length (Table_name_GetTable_GetText ctx)) > maxLength l
        then [\<lparr>Status = level l, Code = NamingTableConventionMismatch, Title = title l,
               Content = Table_name_GetTable_GetText ctx
                 @ '' mismatches table naming convention, its length should be within ''
                 @ fmt_d (maxLength l) @ '' characters'',
               Line = Create_table_GetStart_GetLine ctx\<rparr>]
        else [])
   \<and> (list_all (\<lambda>c. 0x20 \<le> (of_char c :: nat) \<and> (of_char c :: nat) \<le> 0x7E
                   \<and> c \<noteq> CHR 0x22 \<and> c \<noteq> CHR 0x5C) pat
        \<longrightarrow> Quote tables pat = [CHR 0x22] @ pat @ [CHR 0x22])
   \<and> MatchString \<lparr>expr = e, prog = Cat BeginText (Cat r EndText)\<rparr> s = FullMatch r s"
  by (simp add: EnterCreate_table_def Let_def adviceList_checks formatAdvice_def lengthAdvice_def
      MatchString_anchored Quote_def quote_runes_all_printable_ascii)

text \<open>
  Scenario A: the format \<^verbatim>\<open>^[a-z]+(_[a-z]+)*$\<close>, no maximum length, a statement on
  line 1 that creates the table UserOrders. Check returns exactly one Advice.
\<close>

theorem EnterCreate_table_format_check_witness:
  "list_all (\<lambda>c. 0x20 \<le> (of_char c :: nat) \<and> (of_char c :: nat) \<le> 0x7E
               \<and> c \<noteq> CHR 0x22 \<and> c \<noteq> CHR 0x5C) (expr snake_case)
   \<and> Check (funcs snake_case 0) (context_of (create_table_stmt ''UserOrders'' 1) ''WARNING'')
     ''CREATE TABLE UserOrders (id INT)'' [] =
   Some (Inr [\<lparr>Status = Warn, Code = NamingTableConventionMismatch, Title = ''naming.table'',
                Content = ''UserOrders mismatches table naming convention, naming format should be ''
                  @ [CHR 0x22] @ ''^[a-z]+(_[a-z]+)*$'' @ [CHR 0x22],
                Line = 1\<rparr>], [])"
  using EnterCreate_table_format_check [where fs = "funcs snake_case 0"
      and l = "listener_of snake_case 0"
      and ctx = "\<lparr>Table_name_GetTable_GetText = ''UserOrders'', Create_table_GetStart_GetLine = 1\<rparr>"
      and pat = "expr snake_case" and tables = "isPrintTables (funcs snake_case 0)"]
  by (simp add: Check_def context_of_def create_table_stmt_def funcs_def naming_rule_def
      listener_of_def EnterCreate_table_def Let_def checkFormat_def checkLength_def
      snake_case_UserOrders formatAdvice_def Quote_snake_case generateAdvice_def)
     (simp add: snake_case_def)

subsection \<open>The length check\<close>

text \<open>
  C5. Entering a create-table node appends, after what the format check appends, one
  Advice for the length exactly when the maximum length is greater than 0 and the length
  of the name in bytes exceeds it; the condition does not mention the format. Its content
  is \<^verbatim>\<open><name> mismatches table naming convention, its length should be within <N> characters\<close>
  with the maximum length in decimal. So a name that matches the format and is too long
  gets this Advice alone.
\<close>

theorem EnterCreate_table_length_check:
  "adviceList (EnterCreate_table fs l ctx) =
     adviceList (checkFormat fs l (Table_name_GetTable_GetText ctx) (Create_table_GetStart_GetLine ctx))
     @ (if maxLength l > 0 \<and> int (length (Table_name_GetTable_GetText ctx)) > maxLength l
        then [\<lparr>Status = level l, Code = NamingTableConventionMismatch, Title = title l,
               Content = Table_name_GetTable_GetText ctx
                 @ '' mismatches table naming convention, its length should be within ''
                 @ fmt_d (maxLength l) @ '' characters'',
               Line = Create_table_GetStart_GetLine ctx\<rparr>]
        else [])
   \<and> (MatchString (format l) (Table_name_GetTable_GetText ctx) \<longrightarrow>
        adviceList (checkFormat fs l (Table_name_GetTable_GetText ctx) (Create_table_GetStart_GetLine ctx))
          = adviceList l)"
  by (simp add: EnterCreate_table_def Let_def adviceList_checkFormat adviceList_checkLength
      lengthAdvice_def)

text \<open>
  Scenario B: the same format, maximum length 5, the table orders_history. Check returns
  exactly one Advice, the one of the length check.
\<close>

theorem EnterCreate_table_length_check_witness:
  "MatchString snake_case ''orders_history'' \<and>
   Check (funcs snake_case 5) (context_of (create_table_stmt ''orders_history'' 1) ''WARNING'')
     ''CREATE TABLE orders_history (id INT)'' [] =
   Some (Inr [\<lparr>Status = Warn, Code = NamingTableConventionMismatch, Title = ''naming.table'',
                Content = ''orders_history mismatches table naming convention, its length should be within 5 characters'',
                Line = 1\<rparr>], [])"
  using EnterCreate_table_length_check [where fs = "funcs snake_case 5"
      and l = "listener_of snake_case 5"
      and ctx = "\<lparr>Table_name_GetTable_GetText = ''orders_history'', Create_table_GetStart_GetLine = 1\<rparr>"]
  by (simp add: Check_def context_of_def create_table_stmt_def funcs_def naming_rule_def
      listener_of_def EnterCreate_table_def Let_def checkFormat_def checkLength_def
      snake_case_orders_history lengthAdvice_def fmt_d_5 generateAdvice_def)

subsection \<open>Both checks on one name\<close>

text \<open>
  C9. When a table name contains no match of the format and is longer than a maximum
  length greater than 0, exactly two Advice are appended for it, the one of the format
  first and the one of the length second. Both have the code
  NamingTableConventionMismatch and the line of the first token of the statement. This
  holds for a create-table node and for a rename whose new name, once unquoted, is that
  name.
\<close>

theorem both_checks_append_two_advice:
  assumes "\<not> MatchString (format l) name"
    and "maxLength l > 0" and "int (length name) > maxLength l"
    and "NormalizedTSqlTableNamePart fs (Some p) = Inr ''sp_rename''"
  shows "adviceList (EnterCreate_table fs l
           \<lparr>Table_name_GetTable_GetText = name, Create_table_GetStart_GetLine = line\<rparr>) =
         adviceList l @
         [\<lparr>Status = level l, Code = NamingTableConventionMismatch, Title = title l,
            Content = name @ '' mismatches table naming convention, naming format should be ''
              @ Quote (isPrintTables fs) (expr (format l)),
            Line = line\<rparr>,
          \<lparr>Status = level l, Code = NamingTableConventionMismatch, Title = title l,
            Content = name @ '' mismatches table naming convention, its length should be within ''
              @ fmt_d (maxLength l) @ '' characters'',
            Line = line\<rparr>]
       \<and> EnterExecute_body fs (l, lg)
           (proc_call p (Some (string_arg old [string_arg (quoted name) []])) line) =
         Some (l\<lparr>adviceList := adviceList l @
         [\<lparr>Status = level l, Code = NamingTableConventionMismatch, Title = title l,
            Content = name @ '' mismatches table naming convention, naming format should be ''
              @ Quote (isPrintTables fs) (expr (format l)),
            Line = line\<rparr>,
          \<lparr>Status = level l, Code = NamingTableConventionMismatch, Title = title l,
            Content = name @ '' mismatches table naming convention, its length should be within ''
              @ fmt_d (maxLength l) @ '' characters'',
            Line = line\<rparr>]\<rparr>, lg)"
proof
  show "adviceList (EnterCreate_table fs l
           \<lparr>Table_name_GetTable_GetText = name, Create_table_GetStart_GetLine = line\<rparr>) =
         adviceList l @
         [\<lparr>Status = level l, Code = NamingTableConventionMismatch, Title = title l,
            Content = name @ '' mismatches table naming convention, naming format should be ''
              @ Quote (isPrintTables fs) (expr (format l)),
            Line = line\<rparr>,
          \<lparr>Status = level l, Code = NamingTableConventionMismatch, Title = title l,
            Content = name @ '' mismatches table naming convention, its length should be within ''
              @ fmt_d (maxLength l) @ '' characters'',
            Line = line\<rparr>]"
    using assms(1-3)
    by (simp add: EnterCreate_table_def Let_def adviceList_checks formatAdvice_def lengthAdvice_def)
next
  have "EnterExecute_body fs (l, lg)
           (proc_call p (Some (string_arg old [string_arg (quoted name) []])) line) =
        Some (checkLength (checkFormat fs l name line) name line, lg)"
    using assms(4) by (simp add: EnterExecute_body_proc_call unquote_quoted)
  also have "checkLength (checkFormat fs l name line) name line =
        l\<lparr>adviceList := adviceList l @ [formatAdvice fs l name line, lengthAdvice l name line]\<rparr>"
    using assms(1-3) by (simp add: checkFormat_def checkLength_def lengthAdvice_def)
  finally show "EnterExecute_body fs (l, lg)
           (proc_call p (Some (string_arg old [string_arg (quoted name) []])) line) =
         Some (l\<lparr>adviceList := adviceList l @
         [\<lparr>Status = level l, Code = NamingTableConventionMismatch, Title = title l,
            Content = name @ '' mismatches table naming convention, naming format should be ''
              @ Quote (isPrintTables fs) (expr (format l)),
            Line = line\<rparr>,
          \<lparr>Status = level l, Code = NamingTableConventionMismatch, Title = title l,
            Content = name @ '' mismatches table naming convention, its length should be within ''
              @ fmt_d (maxLength l) @ '' characters'',
            Line = line\<rparr>]\<rparr>, lg)"
    by (simp add: formatAdvice_def lengthAdvice_def)
qed

text \<open>
  The table UserOrders against the format of the scenarios and the maximum length 5, on
  line 3: two Advice, the format first.
\<close>

theorem both_checks_append_two_advice_witness:
  "\<not> MatchString (format (listener_of snake_case 5)) ''UserOrders''
   \<and> maxLength (listener_of snake_case 5) > 0
   \<and> int (length ''UserOrders'') > maxLength (listener_of snake_case 5)
   \<and> NormalizedTSqlTableNamePart (funcs snake_case 5) (Some ''sp_rename'') = Inr ''sp_rename''
   \<and> map (\<lambda>a. (Code a, Line a, Content a))
        (adviceList (EnterCreate_table (funcs snake_case 5) (listener_of snake_case 5)
           \<lparr>Table_name_GetTable_GetText = ''UserOrders'', Create_table_GetStart_GetLine = 3\<rparr>)) =
       [(NamingTableConventionMismatch, 3,
         ''UserOrders mismatches table naming convention, naming format should be ''
           @ [CHR 0x22] @ ''^[a-z]+(_[a-z]+)*$'' @ [CHR 0x22]),
        (NamingTableConventionMismatch, 3,
         ''UserOrders mismatches table naming convention, its length should be within 5 characters'')]"
proof -
  have h: "\<not> MatchString (format (listener_of snake_case 5)) ''UserOrders''"
      "maxLength (listener_of snake_case 5) > 0"
      "int (length ''UserOrders'') > maxLength (listener_of snake_case 5)"
      "NormalizedTSqlTableNamePart (funcs snake_case 5) (Some ''sp_rename'') = Inr ''sp_rename''"
    by (simp_all add: listener_of_def snake_case_UserOrders funcs_def)
  show ?thesis
    using h both_checks_append_two_advice [where l = "listener_of snake_case 5"
        and name = "''UserOrders''" and fs = "funcs snake_case 5"
        and p = "''sp_rename''" and line = 3 and lg = "[]" and old = "quoted ''Orders''"]
    by (simp add: listener_of_def Quote_snake_case fmt_d_5)
qed

subsection \<open>Renames\<close>

text \<open>
  C6. For a call of a procedure whose unqualified name normalises to sp_rename, with two
  positional arguments that are string literals, the handler unquotes the text of the
  second argument and runs both checks on that name and on nothing else. After the Advice
  already recorded it appends the Advice of the format check when the new name contains no
  match of the format, and then the Advice of the length check when the maximum length is
  greater than 0 and the new name is longer; both name the new name and the line of the
  call. The text of the first argument occurs nowhere in the result, and the log is left
  as it was. Unquoting strips one pair of surrounding single quotes, when the text has
  both, and leaves any other text as it is; the text that is one single quote alone, which
  is no string literal, makes the slice expression panic.
\<close>

theorem rename_checks_the_new_name:
  assumes "NormalizedTSqlTableNamePart fs (Some p) = Inr ''sp_rename''"
  shows "EnterExecute_body fs (l, lg)
           (proc_call p (Some (string_arg old [string_arg new []])) line) =
         (case unquote new of None \<Rightarrow> None
          | Some newTableName \<Rightarrow>
              Some (l\<lparr>adviceList := adviceList l
                @ (if MatchString (format l) newTableName then []
                   else [\<lparr>Status = level l, Code = NamingTableConventionMismatch,
                          Title = title l,
                          Content = newTableName
                            @ '' mismatches table naming convention, naming format should be ''
                            @ Quote (isPrintTables fs) (expr (format l)),
                          Line = line\<rparr>])
                @ (if maxLength l > 0 \<and> int (length newTableName) > maxLength l
                   then [\<lparr>Status = level l, Code = NamingTableConventionMismatch,
                          Title = title l,
                          Content = newTableName
                            @ '' mismatches table naming convention, its length should be within ''
                            @ fmt_d (maxLength l) @ '' characters'',
                          Line = line\<rparr>]
                   else [])\<rparr>, lg))
       \<and> unquote (quoted s) = Some s
       \<and> (\<not> (HasPrefix t [CHR 0x27] \<and> HasSuffix t [CHR 0x27]) \<longrightarrow> unquote t = Some t)
       \<and> (unquote t = None \<longleftrightarrow> t = [CHR 0x27])"
proof (intro conjI)
  have c: "checkLength (checkFormat fs l n line) n line =
      l\<lparr>adviceList := adviceList l
        @ (if MatchString (format l) n then [] else [formatAdvice fs l n line])
        @ (if maxLength l > 0 \<and> int (length n) > maxLength l
           then [lengthAdvice l n line] else [])\<rparr>" for n
    by (simp add: checkFormat_def checkLength_def lengthAdvice_def)
  show "EnterExecute_body fs (l, lg)
           (proc_call p (Some (string_arg old [string_arg new []])) line) =
         (case unquote new of None \<Rightarrow> None
          | Some newTableName \<Rightarrow>
              Some (l\<lparr>adviceList := adviceList l
                @ (if MatchString (format l) newTableName then []
                   else [\<lparr>Status = level l, Code = NamingTableConventionMismatch,
                          Title = title l,
                          Content = newTableName
                            @ '' mismatches table naming convention, naming format should be ''
                            @ Quote (isPrintTables fs) (expr (format l)),
                          Line = line\<rparr>])
                @ (if maxLength l > 0 \<and> int (length newTableName) > maxLength l
                   then [\<lparr>Status = level l, Code = NamingTableConventionMismatch,
                          Title = title l,
                          Content = newTableName
                            @ '' mismatches table naming convention, its length should be within ''
                            @ fmt_d (maxLength l) @ '' characters'',
                          Line = line\<rparr>]
                   else [])\<rparr>, lg))"
  proof (cases "unquote new")
    case None
    with assms show ?thesis by (simp add: EnterExecute_body_proc_call)
  next
    case (Some n)
    with assms have "EnterExecute_body fs (l, lg)
           (proc_call p (Some (string_arg old [string_arg new []])) line) =
         Some (checkLength (checkFormat fs l n line) n line, lg)"
      by (simp add: EnterExecute_body_proc_call)
    with Some show ?thesis
      by (simp only: c option.case) (simp add: formatAdvice_def lengthAdvice_def)
  qed
  show "unquote (quoted s) = Some s"
    by (rule unquote_quoted)
  show "\<not> (HasPrefix t [CHR 0x27] \<and> HasSuffix t [CHR 0x27]) \<longrightarrow> unquote t = Some t"
    by (simp add: unquote_def)
  show "unquote t = None \<longleftrightarrow> t = [CHR 0x27]"
    by (rule unquote_None)
qed

text \<open>
  Scenario C: the old name \<^verbatim>\<open>'dbo.Old_Table'\<close>, the new name \<^verbatim>\<open>'NewTable'\<close>, the
  format of the scenarios. With no maximum length Check returns exactly one Advice, the
  one of the format check about NewTable. With the maximum length 5 it returns two, the
  one of the format check and the one of the length check, both about NewTable. The old
  name, which does not match the format either and is longer than 5, is not reported.
\<close>

theorem rename_checks_the_new_name_witness:
  "NormalizedTSqlTableNamePart (funcs snake_case 0) (Some ''sp_rename'') = Inr ''sp_rename''
   \<and> NormalizedTSqlTableNamePart (funcs snake_case 5) (Some ''sp_rename'') = Inr ''sp_rename''
   \<and> \<not> MatchString snake_case ''dbo.Old_Table''
   \<and> int (length ''dbo.Old_Table'') > 5
   \<and> Check (funcs snake_case 0)
       (context_of (execute_stmt (proc_call ''sp_rename''
          (Some (string_arg (quoted ''dbo.Old_Table'') [string_arg (quoted ''NewTable'') []])) 1))
          ''WARNING'')
       (''EXEC sp_rename '' @ quoted ''dbo.Old_Table'' @ '', '' @ quoted ''NewTable'') [] =
     Some (Inr [\<lparr>Status = Warn, Code = NamingTableConventionMismatch, Title = ''naming.table'',
                Content = ''NewTable mismatches table naming convention, naming format should be ''
                  @ [CHR 0x22] @ ''^[a-z]+(_[a-z]+)*$'' @ [CHR 0x22],
                Line = 1\<rparr>], [])
   \<and> Check (funcs snake_case 5)
       (context_of (execute_stmt (proc_call ''sp_rename''
          (Some (string_arg (quoted ''dbo.Old_Table'') [string_arg (quoted ''NewTable'') []])) 1))
          ''WARNING'')
       (''EXEC sp_rename '' @ quoted ''dbo.Old_Table'' @ '', '' @ quoted ''NewTable'') [] =
     Some (Inr [\<lparr>Status = Warn, Code = NamingTableConventionMismatch, Title = ''naming.table'',
                Content = ''NewTable mismatches table naming convention, naming format should be ''
                  @ [CHR 0x22] @ ''^[a-z]+(_[a-z]+)*$'' @ [CHR 0x22],
                Line = 1\<rparr>,
               \<lparr>Status = Warn, Code = NamingTableConventionMismatch, Title = ''naming.table'',
                Content = ''NewTable mismatches table naming convention, its length should be within 5 characters'',
                Line = 1\<rparr>], [])"
proof -
  have h: "NormalizedTSqlTableNamePart (funcs snake_case 0) (Some ''sp_rename'') = Inr ''sp_rename''"
      "NormalizedTSqlTableNamePart (funcs snake_case 5) (Some ''sp_rename'') = Inr ''sp_rename''"
    by (simp_all add: funcs_def)
  have m: "\<not> MatchString snake_case ''dbo.Old_Table''"
    by (simp add: MatchString_def snake_case_def lower_def)
  have e0: "EnterExecute_body (funcs snake_case 0) (listener_of snake_case 0, [])
       (proc_call ''sp_rename''
          (Some (string_arg (quoted ''dbo.Old_Table'') [string_arg (quoted ''NewTable'') []])) 1) =
     Some ((listener_of snake_case 0)\<lparr>adviceList :=
       [\<lparr>Status = Warn, Code = NamingTableConventionMismatch, Title = ''naming.table'',
         Content = ''NewTable mismatches table naming convention, naming format should be ''
           @ [CHR 0x22] @ ''^[a-z]+(_[a-z]+)*$'' @ [CHR 0x22],
         Line = 1\<rparr>]\<rparr>, [])"
    using rename_checks_the_new_name [OF h(1), where l = "listener_of snake_case 0"
        and lg = "[]" and old = "quoted ''dbo.Old_Table''" and new = "quoted ''NewTable''"
        and line = 1 and s = "''NewTable''" and t = "''NewTable''"]
    by (simp add: unquote_quoted listener_of_def snake_case_NewTable Quote_snake_case)
  have e5: "EnterExecute_body (funcs snake_case 5) (listener_of snake_case 5, [])
       (proc_call ''sp_rename''
          (Some (string_arg (quoted ''dbo.Old_Table'') [string_arg (quoted ''NewTable'') []])) 1) =
     Some ((listener_of snake_case 5)\<lparr>adviceList :=
       [\<lparr>Status = Warn, Code = NamingTableConventionMismatch, Title = ''naming.table'',
         Content = ''NewTable mismatches table naming convention, naming format should be ''
           @ [CHR 0x22] @ ''^[a-z]+(_[a-z]+)*$'' @ [CHR 0x22],
         Line = 1\<rparr>,
        \<lparr>Status = Warn, Code = NamingTableConventionMismatch, Title = ''naming.table'',
         Content = ''NewTable mismatches table naming convention, its length should be within 5 characters'',
         Line = 1\<rparr>]\<rparr>, [])"
    using rename_checks_the_new_name [OF h(2), where l = "listener_of snake_case 5"
        and lg = "[]" and old = "quoted ''dbo.Old_Table''" and new = "quoted ''NewTable''"
        and line = 1 and s = "''NewTable''" and t = "''NewTable''"]
    by (simp add: unquote_quoted listener_of_def snake_case_NewTable Quote_snake_case fmt_d_5)
  have c0: "Check (funcs snake_case 0)
       (context_of (execute_stmt (proc_call ''sp_rename''
          (Some (string_arg (quoted ''dbo.Old_Table'') [string_arg (quoted ''NewTable'') []])) 1))
          ''WARNING'')
       (''EXEC sp_rename '' @ quoted ''dbo.Old_Table'' @ '', '' @ quoted ''NewTable'') [] =
     Some (Inr [\<lparr>Status = Warn, Code = NamingTableConventionMismatch, Title = ''naming.table'',
                Content = ''NewTable mismatches table naming convention, naming format should be ''
                  @ [CHR 0x22] @ ''^[a-z]+(_[a-z]+)*$'' @ [CHR 0x22],
                Line = 1\<rparr>], [])"
    using e0
    by (simp add: Check_def context_of_def execute_stmt_def naming_rule_def listener_of_def
        generateAdvice_def funcs_def)
  have c5: "Check (funcs snake_case 5)
       (context_of (execute_stmt (proc_call ''sp_rename''
          (Some (string_arg (quoted ''dbo.Old_Table'') [string_arg (quoted ''NewTable'') []])) 1))
          ''WARNING'')
       (''EXEC sp_rename '' @ quoted ''dbo.Old_Table'' @ '', '' @ quoted ''NewTable'') [] =
     Some (Inr [\<lparr>Status = Warn, Code = NamingTableConventionMismatch, Title = ''naming.table'',
                Content = ''NewTable mismatches table naming convention, naming format should be ''
                  @ [CHR 0x22] @ ''^[a-z]+(_[a-z]+)*$'' @ [CHR 0x22],
                Line = 1\<rparr>,
               \<lparr>Status = Warn, Code = NamingTableConventionMismatch, Title = ''naming.table'',
                Content = ''NewTable mismatches table naming convention, its length should be within 5 characters'',
                Line = 1\<rparr>], [])"
    using e5
    by (simp add: Check_def context_of_def execute_stmt_def naming_rule_def listener_of_def
        generateAdvice_def funcs_def)
  from h m c0 c5 show ?thesis by simp
qed

subsection \<open>Calls that are not the expected rename\<close>

text \<open>
  C7 does not hold of the code for a rename with three positional arguments. The rule of
  the parser for an argument refers to itself, which is why an argument context has the
  accessor \<^verbatim>\<open>AllExecute_statement_arg\<close>: an argument is followed by the arguments
  after it as its children. In
  \<^verbatim>\<open>EXEC sp_rename 'dbo.Old_Table', 'NewTable', 'OBJECT'\<close> the second argument is the
  one argument nested under the first, and the third is nested under the second. The
  handler counts the arguments nested directly under the first: the count is 1, as it is
  for a call with two arguments, the test \<^verbatim>\<open>!= 1\<close> passes, and the second argument is
  checked. Check returns the Advice about NewTable and not the single Success Advice.
\<close>

theorem three_arguments_are_checked:
  "length (AllExecute_statement_arg
     (string_arg (quoted ''dbo.Old_Table'')
        [string_arg (quoted ''NewTable'') [string_arg (quoted ''OBJECT'') []]])) = 1
   \<and> Check (funcs snake_case 0)
     (context_of (execute_stmt (proc_call ''sp_rename''
        (Some (string_arg (quoted ''dbo.Old_Table'')
           [string_arg (quoted ''NewTable'') [string_arg (quoted ''OBJECT'') []]])) 1))
        ''WARNING'')
     (''EXEC sp_rename '' @ quoted ''dbo.Old_Table'' @ '', '' @ quoted ''NewTable''
        @ '', '' @ quoted ''OBJECT'') [] =
   Some (Inr [\<lparr>Status = Warn, Code = NamingTableConventionMismatch, Title = ''naming.table'',
                Content = ''NewTable mismatches table naming convention, naming format should be ''
                  @ [CHR 0x22] @ ''^[a-z]+(_[a-z]+)*$'' @ [CHR 0x22],
                Line = 1\<rparr>], [])"
  by (simp add: Check_def context_of_def execute_stmt_def naming_rule_def funcs_def
      EnterExecute_body_proc_call unquote_quoted checkFormat_def checkLength_def
      snake_case_NewTable formatAdvice_def Quote_snake_case generateAdvice_def)

text \<open>
  The calls that the handler does skip. It leaves the listener and the log as they are,
  and the walk goes on with the children of the node, when a node of the chain of the
  qualified name is missing, when the name has a schema, when the normalised procedure
  name is not sp_rename, when there is no first argument, when the first argument is not a
  string literal, when the number of arguments nested directly under the first is not
  one, and when the second argument is not a string literal. When normalising the
  procedure name fails, the handler appends one line to the log and leaves the listener as
  it is. Arguments nested under the second argument are not looked at. No case returns an
  error.
\<close>

lemma unexpected_call_is_skipped:
  "(Func_proc_name_server_database_schema ctx = None
      \<longrightarrow> EnterExecute_body fs st ctx = Some st)
   \<and> (Func_proc_name_server_database_schema ctx
        = Some (Func_proc_name_server_database_schemaContext None)
      \<longrightarrow> EnterExecute_body fs st ctx = Some st)
   \<and> (Func_proc_name_server_database_schema ctx
        = Some (Func_proc_name_server_database_schemaContext
            (Some (Func_proc_name_database_schemaContext None)))
      \<longrightarrow> EnterExecute_body fs st ctx = Some st)
   \<and> (Func_proc_name_server_database_schema ctx = Some (name_chain (Some schema) procedure)
      \<longrightarrow> EnterExecute_body fs st ctx = Some st)
   \<and> (Func_proc_name_server_database_schema ctx = Some (name_chain None procedure)
        \<and> NormalizedTSqlTableNamePart fs procedure = Inl (Errorf msg)
      \<longrightarrow> EnterExecute_body fs st ctx
            = Some (fst st, snd st @ [''failed to normalize procedure name: '' @ msg]))
   \<and> (Func_proc_name_server_database_schema ctx = Some (name_chain None procedure)
        \<and> NormalizedTSqlTableNamePart fs procedure = Inr name \<and> name \<noteq> ''sp_rename''
      \<longrightarrow> EnterExecute_body fs st ctx = Some st)
   \<and> (Func_proc_name_server_database_schema ctx = Some (name_chain None procedure)
        \<and> NormalizedTSqlTableNamePart fs procedure = Inr ''sp_rename''
        \<and> (case Execute_statement_arg ctx of
              None \<Rightarrow> True
            | Some firstArgument \<Rightarrow>
                STRING_GetText firstArgument = None
                \<or> length (AllExecute_statement_arg firstArgument) \<noteq> 1
                \<or> (case Execute_statement_arg_at firstArgument 0 of
                      None \<Rightarrow> True
                    | Some secondArgument \<Rightarrow> STRING_GetText secondArgument = None))
      \<longrightarrow> EnterExecute_body fs st ctx = Some st)
   \<and> (EnterExecute_body fs st ctx = Some st'
      \<longrightarrow> Walk fs st (Execute_body ctx ts) = WalkChildren fs st' ts)"
proof (intro conjI impI)
  assume "Func_proc_name_server_database_schema ctx = None"
  then show "EnterExecute_body fs st ctx = Some st"
    by (simp add: EnterExecute_body_def)
next
  assume "Func_proc_name_server_database_schema ctx
        = Some (Func_proc_name_server_database_schemaContext None)"
  then show "EnterExecute_body fs st ctx = Some st"
    by (simp add: EnterExecute_body_def)
next
  assume "Func_proc_name_server_database_schema ctx
        = Some (Func_proc_name_server_database_schemaContext
            (Some (Func_proc_name_database_schemaContext None)))"
  then show "EnterExecute_body fs st ctx = Some st"
    by (simp add: EnterExecute_body_def)
next
  assume "Func_proc_name_server_database_schema ctx = Some (name_chain (Some schema) procedure)"
  then show "EnterExecute_body fs st ctx = Some st"
    by (simp add: EnterExecute_body_def name_chain_def)
next
  assume "Func_proc_name_server_database_schema ctx = Some (name_chain None procedure)
        \<and> NormalizedTSqlTableNamePart fs procedure = Inl (Errorf msg)"
  then show "EnterExecute_body fs st ctx
            = Some (fst st, snd st @ [''failed to normalize procedure name: '' @ msg])"
    by (simp add: EnterExecute_body_def name_chain_def)
next
  assume "Func_proc_name_server_database_schema ctx = Some (name_chain None procedure)
        \<and> NormalizedTSqlTableNamePart fs procedure = Inr name \<and> name \<noteq> ''sp_rename''"
  then show "EnterExecute_body fs st ctx = Some st"
    by (simp add: EnterExecute_body_def name_chain_def)
next
  assume a: "Func_proc_name_server_database_schema ctx = Some (name_chain None procedure)
        \<and> NormalizedTSqlTableNamePart fs procedure = Inr ''sp_rename''
        \<and> (case Execute_statement_arg ctx of
              None \<Rightarrow> True
            | Some firstArgument \<Rightarrow>
                STRING_GetText firstArgument = None
                \<or> length (AllExecute_statement_arg firstArgument) \<noteq> 1
                \<or> (case Execute_statement_arg_at firstArgument 0 of
                      None \<Rightarrow> True
                    | Some secondArgument \<Rightarrow> STRING_GetText secondArgument = None))"
  show "EnterExecute_body fs st ctx = Some st"
  proof (cases "Execute_statement_arg ctx")
    case None
    with a show ?thesis by (simp add: EnterExecute_body_def name_chain_def)
  next
    case (Some firstArgument)
    with a show ?thesis
      by (auto simp: EnterExecute_body_def name_chain_def split: option.splits)
  qed
next
  assume "EnterExecute_body fs st ctx = Some st'"
  then show "Walk fs st (Execute_body ctx ts) = WalkChildren fs st' ts"
    by simp
qed

text \<open>
  A first argument with two arguments nested directly under it is skipped, and Check
  returns the single Success Advice. A normaliser that fails leaves a line in the log and
  no Advice, and a call qualified by a schema is skipped.
\<close>

lemma unexpected_call_is_skipped_examples:
  "Check (funcs snake_case 0)
     (context_of (execute_stmt (proc_call ''sp_rename''
        (Some (string_arg (quoted ''dbo.Old_Table'')
           [string_arg (quoted ''NewTable'') [], string_arg (quoted ''OBJECT'') []])) 1))
        ''WARNING'')
     (''EXEC sp_rename '' @ quoted ''dbo.Old_Table'' @ '', '' @ quoted ''NewTable''
        @ '', '' @ quoted ''OBJECT'') [] =
   Some (Inr [\<lparr>Status = Success, Code = Ok, Title = ''OK'', Content = [], Line = 0\<rparr>], [])
   \<and> EnterExecute_body ((funcs snake_case 0)\<lparr>NormalizedTSqlTableNamePart := \<lambda>v. Inl (Errorf ''empty name'')\<rparr>) (listener_of snake_case 0, [])
       (proc_call ''sp_rename''
          (Some (string_arg (quoted ''dbo.Old_Table'') [string_arg (quoted ''NewTable'') []])) 1) =
     Some (listener_of snake_case 0, [''failed to normalize procedure name: empty name''])
   \<and> EnterExecute_body (funcs snake_case 0)
       (listener_of snake_case 0, [])
       \<lparr>Func_proc_name_server_database_schema = Some (name_chain (Some ''dbo'') (Some ''sp_rename'')),
        Execute_statement_arg =
          Some (string_arg (quoted ''dbo.Old_Table'') [string_arg (quoted ''NewTable'') []]),
        Execute_body_GetStart_GetLine = 1\<rparr> =
     Some (listener_of snake_case 0, [])"
  using
    unexpected_call_is_skipped [where fs = "funcs snake_case 0"
      and st = "(listener_of snake_case 0, [])" and procedure = "Some ''sp_rename''"
      and ctx = "proc_call ''sp_rename''
        (Some (string_arg (quoted ''dbo.Old_Table'')
           [string_arg (quoted ''NewTable'') [], string_arg (quoted ''OBJECT'') []])) 1"]
    unexpected_call_is_skipped [where fs = "(funcs snake_case 0)\<lparr>NormalizedTSqlTableNamePart := \<lambda>v. Inl (Errorf ''empty name'')\<rparr>"
      and st = "(listener_of snake_case 0, [])" and procedure = "Some ''sp_rename''"
      and msg = "''empty name''"
      and ctx = "proc_call ''sp_rename''
        (Some (string_arg (quoted ''dbo.Old_Table'') [string_arg (quoted ''NewTable'') []])) 1"]
    unexpected_call_is_skipped [where fs = "funcs snake_case 0"
      and st = "(listener_of snake_case 0, [])" and procedure = "Some ''sp_rename''"
      and schema = "''dbo''"
      and ctx = "\<lparr>Func_proc_name_server_database_schema = Some (name_chain (Some ''dbo'') (Some ''sp_rename'')),
        Execute_statement_arg =
          Some (string_arg (quoted ''dbo.Old_Table'') [string_arg (quoted ''NewTable'') []]),
        Execute_body_GetStart_GetLine = 1\<rparr>"]
  by (simp add: Check_def context_of_def execute_stmt_def naming_rule_def funcs_def
      listener_of_def proc_call_def generateAdvice_def okAdvice_def)

subsection \<open>Determinism\<close>

lemma log_independent_skip: "log_independent (\<lambda>st. Some st)"
  by (simp add: log_independent_def)

lemma log_independent_panic: "log_independent (\<lambda>st. None)"
  by (simp add: log_independent_def)

lemma log_independent_logged: "log_independent (\<lambda>st. Some (fst st, snd st @ [line]))"
  by (simp add: log_independent_def)

lemma log_independent_checked: "log_independent (\<lambda>st. Some (h (fst st), snd st))"
  by (simp add: log_independent_def)

lemma log_independent_option:
  "log_independent f \<Longrightarrow> (\<And>x. log_independent (g x)) \<Longrightarrow>
   log_independent (\<lambda>st. case a of None \<Rightarrow> f st | Some x \<Rightarrow> g x st)"
  by (cases a) simp_all

lemma log_independent_sum:
  "(\<And>e. log_independent (f e)) \<Longrightarrow> (\<And>x. log_independent (g x)) \<Longrightarrow>
   log_independent (\<lambda>st. case a of Inl e \<Rightarrow> f e st | Inr x \<Rightarrow> g x st)"
  by (cases a) simp_all

lemma log_independent_error:
  "(\<And>msg. log_independent (f msg)) \<Longrightarrow>
   log_independent (\<lambda>st. case e of Errorf msg \<Rightarrow> f msg st)"
  by (cases e) simp_all

lemma log_independent_if:
  "log_independent f \<Longrightarrow> log_independent g \<Longrightarrow>
   log_independent (\<lambda>st. if c then f st else g st)"
  by (cases c) simp_all

lemma EnterExecute_body_log_independent:
  "log_independent (\<lambda>st. EnterExecute_body fs st ctx)"
  unfolding EnterExecute_body_def
  by (intro log_independent_option log_independent_sum log_independent_error
      log_independent_if log_independent_skip log_independent_panic log_independent_logged
      log_independent_checked)

lemma enter_log:
  "map_option fst (enter fs (l, lg1) e) = map_option fst (enter fs (l, lg2) e)"
proof (cases e)
  case (EnteredCreate_table c)
  then show ?thesis by simp
next
  case (EnteredExecute_body c)
  then show ?thesis
    using EnterExecute_body_log_independent [of fs c] by (simp add: log_independent_def)
qed

lemma run_log:
  "map_option fst (run fs (l, lg1) es) = map_option fst (run fs (l, lg2) es)"
proof (induction es arbitrary: l lg1 lg2)
  case Nil
  show ?case by simp
next
  case (Cons e es)
  have e: "map_option fst (enter fs (l, lg1) e) = map_option fst (enter fs (l, lg2) e)"
    by (rule enter_log)
  show ?case
  proof (cases "enter fs (l, lg1) e")
    case None
    with e have "enter fs (l, lg2) e = None" by simp
    with None show ?thesis by simp
  next
    case (Some st1)
    with e obtain st2 where s2: "enter fs (l, lg2) e = Some st2" and f: "fst st2 = fst st1"
      by (cases "enter fs (l, lg2) e") auto
    have "run fs (l, lg1) (e # es) = run fs (fst st1, snd st1) es"
      using Some by simp
    moreover have "run fs (l, lg2) (e # es) = run fs (fst st1, snd st2) es"
      using s2 f by (cases st2) simp
    moreover have "map_option fst (run fs (fst st1, snd st1) es)
        = map_option fst (run fs (fst st1, snd st2) es)"
      by (rule Cons.IH)
    ultimately show ?thesis by simp
  qed
qed

text \<open>
  C8. Two runs of Check with the same functions and the same context give the same
  result: both return the same error, or both return the same list of Advice, in the same
  order with the same contents and lines, or both panic. The statement text and what the
  log held before the run have no part in it.
\<close>

theorem Check_deterministic:
  "map_option fst (Check fs ctx statement1 lg1) = map_option fst (Check fs ctx statement2 lg2)"
proof (cases "AST ctx")
  case None
  then show ?thesis by (simp add: Check_def)
next
  case (Some tree)
  show ?thesis
  proof (cases "NewStatusBySQLReviewRuleLevel fs (Level (Rule ctx))")
    case (Inl err)
    with Some show ?thesis by (simp add: Check_def)
  next
    case lvl: (Inr lvl)
    show ?thesis
    proof (cases "UnmarshalNamingRulePayloadAsRegexp fs (Payload (Rule ctx))")
      case (Inl err)
      with Some lvl show ?thesis by (simp add: Check_def)
    next
      case (Inr fm)
      obtain fmt maxLen where fm: "fm = (fmt, maxLen)" by (cases fm)
      define l0 where "l0 = \<lparr>level = lvl, title = Type (Rule ctx), format = fmt,
        maxLength = maxLen, adviceList = []\<rparr>"
      have c: "Check fs ctx s lg =
          (case run fs (l0, lg) (entered_nodes tree) of None \<Rightarrow> None
           | Some (listener, lg') \<Rightarrow> Some (generateAdvice listener, lg'))" for s lg
        using Some lvl Inr fm by (simp add: Check_def Walk_run l0_def)
      have "map_option fst (run fs (l0, lg1) (entered_nodes tree))
          = map_option fst (run fs (l0, lg2) (entered_nodes tree))"
        by (rule run_log)
      then show ?thesis
        by (cases "run fs (l0, lg1) (entered_nodes tree)";
            cases "run fs (l0, lg2) (entered_nodes tree)") (auto simp: c)
    qed
  qed
qed

subsection \<open>Components and fields\<close>

lemma find_component_type:
  "find_component K cs = Some c \<Longrightarrow> payload_type (payload c) = K"
  by (auto simp: find_component_def find_Some_iff)

lemma find_component_nonempty: "find_component K cs = Some c \<Longrightarrow> cs \<noteq> []"
  by (auto simp: find_component_def)

lemma with_value_type [simp]: "payload_type (payload (with_value c v)) = payload_type (payload c)"
  by (simp add: with_value_def)

lemma current_with_value:
  "v \<noteq> JNull \<Longrightarrow> current (payload (with_value c (Some v))) = v"
  by (cases v) (simp_all add: current_def with_value_def nullish_or_def)

lemma find_payload_first:
  "payload_type (payload c) = K \<Longrightarrow> find_payload K (c # cs) = Some (payload c)"
  by (simp add: find_payload_def find_component_def)

lemma find_payload_second:
  "payload_type (payload c) \<noteq> K \<Longrightarrow> find_payload K (c # cs) = find_payload K cs"
  by (simp add: find_payload_def find_component_def)

lemma map_one_field:
  assumes "dom m = {f}" and "m f = Some v"
  shows "[f \<mapsto> v] = m"
proof (rule ext)
  fix k
  show "[f \<mapsto> v] k = m k"
  proof (cases "k = f")
    case True
    with assms show ?thesis by simp
  next
    case False
    with assms(1) have "k \<notin> dom m" by simp
    then have "m k = None" by (simp add: domIff)
    with False show ?thesis by simp
  qed
qed

lemma map_two_fields:
  assumes "dom m = {f, g}" and "m f = Some v" and "m g = Some w"
  shows "[f \<mapsto> v, g \<mapsto> w] = m"
proof (rule ext)
  fix k
  show "[f \<mapsto> v, g \<mapsto> w] k = m k"
  proof (cases "k = f \<or> k = g")
    case True
    with assms show ?thesis by auto
  next
    case False
    with assms(1) have "k \<notin> dom m" by simp
    then have "m k = None" by (simp add: domIff)
    with False show ?thesis by simp
  qed
qed

subsection \<open>The switches as a table\<close>

lemma rule_type_cases
  [case_names minimum_plan_level drop_naming string_number index_pk template_number
     identifier_case column_required string_array boolean_number number unknown]:
  obtains "t = ''statement.query.minimum-plan-level''"
  | "t \<noteq> ''statement.query.minimum-plan-level''" "t = ''table.drop-naming-convention''"
  | "t \<noteq> ''statement.query.minimum-plan-level''" "t \<noteq> ''table.drop-naming-convention''"
    "t \<in> set string_number_rules"
  | "t \<noteq> ''statement.query.minimum-plan-level''" "t \<noteq> ''table.drop-naming-convention''"
    "t \<notin> set string_number_rules" "t = ''naming.index.pk''"
  | "t \<noteq> ''statement.query.minimum-plan-level''" "t \<noteq> ''table.drop-naming-convention''"
    "t \<notin> set string_number_rules" "t \<noteq> ''naming.index.pk''" "t \<in> set template_number_rules"
  | "t \<noteq> ''statement.query.minimum-plan-level''" "t \<noteq> ''table.drop-naming-convention''"
    "t \<notin> set string_number_rules" "t \<noteq> ''naming.index.pk''" "t \<notin> set template_number_rules"
    "t = ''naming.identifier.case''"
  | "t \<noteq> ''statement.query.minimum-plan-level''" "t \<noteq> ''table.drop-naming-convention''"
    "t \<notin> set string_number_rules" "t \<noteq> ''naming.index.pk''" "t \<notin> set template_number_rules"
    "t \<noteq> ''naming.identifier.case''" "t = ''column.required''"
  | "t \<noteq> ''statement.query.minimum-plan-level''" "t \<noteq> ''table.drop-naming-convention''"
    "t \<notin> set string_number_rules" "t \<noteq> ''naming.index.pk''" "t \<notin> set template_number_rules"
    "t \<noteq> ''naming.identifier.case''" "t \<noteq> ''column.required''" "t \<in> set string_array_rules"
  | "t \<noteq> ''statement.query.minimum-plan-level''" "t \<noteq> ''table.drop-naming-convention''"
    "t \<notin> set string_number_rules" "t \<noteq> ''naming.index.pk''" "t \<notin> set template_number_rules"
    "t \<noteq> ''naming.identifier.case''" "t \<noteq> ''column.required''" "t \<notin> set string_array_rules"
    "t \<in> set boolean_number_rules"
  | "t \<noteq> ''statement.query.minimum-plan-level''" "t \<noteq> ''table.drop-naming-convention''"
    "t \<notin> set string_number_rules" "t \<noteq> ''naming.index.pk''" "t \<notin> set template_number_rules"
    "t \<noteq> ''naming.identifier.case''" "t \<noteq> ''column.required''" "t \<notin> set string_array_rules"
    "t \<notin> set boolean_number_rules" "t \<in> set number_rules"
  | "t \<noteq> ''statement.query.minimum-plan-level''" "t \<noteq> ''table.drop-naming-convention''"
    "t \<notin> set string_number_rules" "t \<noteq> ''naming.index.pk''" "t \<notin> set template_number_rules"
    "t \<noteq> ''naming.identifier.case''" "t \<noteq> ''column.required''" "t \<notin> set string_array_rules"
    "t \<notin> set boolean_number_rules" "t \<notin> set number_rules"
  by blast

lemma required_components_unknown:
  "required_components t = None \<longleftrightarrow>
     t \<noteq> ''statement.query.minimum-plan-level'' \<and> t \<noteq> ''table.drop-naming-convention''
     \<and> t \<notin> set string_number_rules \<and> t \<noteq> ''naming.index.pk''
     \<and> t \<notin> set template_number_rules \<and> t \<noteq> ''naming.identifier.case''
     \<and> t \<noteq> ''column.required'' \<and> t \<notin> set string_array_rules
     \<and> t \<notin> set boolean_number_rules \<and> t \<notin> set number_rules"
  by (cases t rule: rule_type_cases) (simp_all add: required_components_def)

lemma convertPolicyRuleToRuleTemplate_table:
  assumes "rule_type r = template_type t" and "componentList t \<noteq> []"
    and "template_type t \<noteq> ''naming.identifier.case''"
    and "template_type t \<noteq> ''column.required''"
  shows "convertPolicyRuleToRuleTemplate r t =
     (case required_components (template_type t) of
        None \<Rightarrow> Inl (Invalid_rule (template_type t))
      | Some ds \<Rightarrow>
          if list_all (\<lambda>d. find_component (fst d) (componentList t) \<noteq> None) ds
          then Inr (t\<lparr>template_engine := rule_engine r, template_level := rule_level r,
                     template_comment := Some (rule_comment r),
                     componentList := overlay (stored_payload r) (componentList t) ds\<rparr>)
          else Inl (Invalid_rule (template_type t)))"
  using assms
  by (cases "template_type t" rule: rule_type_cases)
     (simp_all add: convertPolicyRuleToRuleTemplate_def required_components_def Let_def
        overlay_def stored_payload_def split: option.splits)

lemma mergeIndividualConfigAsRule_table:
  "mergeIndividualConfigAsRule base t =
     (case required_components (template_type t) of
        None \<Rightarrow> Inl (Invalid_rule (template_type t))
      | Some ds \<Rightarrow>
          if list_all (\<lambda>d. find_component (fst d) (componentList t) \<noteq> None) ds
          then Inr (base\<lparr>rule_payload := Some (collect (componentList t) ds)\<rparr>)
          else Inl (Invalid_rule (template_type t)))"
  by (cases "template_type t" rule: rule_type_cases)
     (simp_all add: mergeIndividualConfigAsRule_def required_components_def Let_def
        collect_def find_payload_def split: option.splits)

lemma required_components_lengths:
  assumes "required_components t = Some ds"
  shows "length ds = 1 \<or>
         (length ds = 2 \<and> snd (ds ! 1) = ''maxLength'' \<and> fst (ds ! 0) \<noteq> fst (ds ! 1)
          \<and> snd (ds ! 0) \<noteq> ''maxLength'')"
  using assms
  by (cases t rule: rule_type_cases) (auto simp: required_components_def)

lemma required_components_shape:
  assumes "required_components t = Some ds"
  shows "(\<exists>K f. ds = [(K, f)]) \<or>
         (\<exists>K f K'. ds = [(K, f), (K', ''maxLength'')] \<and> K \<noteq> K' \<and> f \<noteq> ''maxLength'')"
proof -
  from assms have "length ds = 1 \<or>
         (length ds = 2 \<and> snd (ds ! 1) = ''maxLength'' \<and> fst (ds ! 0) \<noteq> fst (ds ! 1)
          \<and> snd (ds ! 0) \<noteq> ''maxLength'')"
    by (rule required_components_lengths)
  then show ?thesis
  proof
    assume "length ds = 1"
    then obtain d where "ds = [d]" by (cases ds) auto
    then show ?thesis by (cases d) simp
  next
    assume a: "length ds = 2 \<and> snd (ds ! 1) = ''maxLength'' \<and> fst (ds ! 0) \<noteq> fst (ds ! 1)
          \<and> snd (ds ! 0) \<noteq> ''maxLength''"
    then obtain d e where de: "ds = [d, e]"
      by (cases ds; cases "tl ds") auto
    with a show ?thesis by (cases d; cases e) simp
  qed
qed

lemma required_components_column_required:
  "required_components ''column.required'' = Some [(''STRING_ARRAY'', ''list'')]"
  by (simp add: required_components_def string_number_rules_def template_number_rules_def)

lemma collect_overlay_one:
  assumes "find_component K cs = Some c" and "dom m = {f}" and "m f \<noteq> Some JNull"
  shows "find_component K (overlay m cs [(K, f)]) \<noteq> None"
    and "collect (overlay m cs [(K, f)]) [(K, f)] = m"
proof -
  have ty: "payload_type (payload c) = K"
    using assms(1) by (rule find_component_type)
  from assms(2) have "f \<in> dom m" by simp
  then obtain v where v: "m f = Some v" by blast
  with assms(3) have nn: "v \<noteq> JNull" by simp
  have o: "overlay m cs [(K, f)] = [with_value c (Some v)]"
    using assms(1) v by (simp add: overlay_def)
  show "find_component K (overlay m cs [(K, f)]) \<noteq> None"
    using ty by (simp add: o find_component_def)
  have "collect (overlay m cs [(K, f)]) [(K, f)] = [f \<mapsto> current (payload (with_value c (Some v)))]"
    using ty by (simp add: o collect_def find_payload_first)
  also have "\<dots> = [f \<mapsto> v]"
    using nn by (simp add: current_with_value)
  also have "\<dots> = m"
    using assms(2) v by (rule map_one_field)
  finally show "collect (overlay m cs [(K, f)]) [(K, f)] = m" .
qed

lemma collect_overlay_two:
  assumes "find_component K cs = Some c" and "find_component K' cs = Some c'"
    and "K \<noteq> K'" and "f \<noteq> g"
    and "dom m = {f, g}" and "m f \<noteq> Some JNull" and "m g \<noteq> Some JNull"
  shows "find_component K (overlay m cs [(K, f), (K', g)]) \<noteq> None"
    and "find_component K' (overlay m cs [(K, f), (K', g)]) \<noteq> None"
    and "collect (overlay m cs [(K, f), (K', g)]) [(K, f), (K', g)] = m"
proof -
  have ty: "payload_type (payload c) = K" "payload_type (payload c') = K'"
    using assms(1,2) by (auto dest: find_component_type)
  from assms(5) have "f \<in> dom m" "g \<in> dom m" by simp_all
  then obtain v w where v: "m f = Some v" and w: "m g = Some w"
    by blast
  with assms(6,7) have nn: "v \<noteq> JNull" "w \<noteq> JNull" by simp_all
  have o: "overlay m cs [(K, f), (K', g)] = [with_value c (Some v), with_value c' (Some w)]"
    using assms(1,2) v w by (simp add: overlay_def)
  show "find_component K (overlay m cs [(K, f), (K', g)]) \<noteq> None"
    using ty by (simp add: o find_component_def)
  show "find_component K' (overlay m cs [(K, f), (K', g)]) \<noteq> None"
    using ty by (simp add: o find_component_def)
  have "collect (overlay m cs [(K, f), (K', g)]) [(K, f), (K', g)] =
        [f \<mapsto> current (payload (with_value c (Some v))),
         g \<mapsto> current (payload (with_value c' (Some w)))]"
    using ty assms(3) by (simp add: o collect_def find_payload_first find_payload_second)
  also have "\<dots> = [f \<mapsto> v, g \<mapsto> w]"
    using nn by (simp add: current_with_value)
  also have "\<dots> = m"
    using assms(5) v w by (rule map_two_fields)
  finally show "collect (overlay m cs [(K, f), (K', g)]) [(K, f), (K', g)] = m" .
qed

lemma collect_overlay:
  assumes rc: "required_components t = Some ds"
    and fd: "list_all (\<lambda>d. find_component (fst d) cs \<noteq> None) ds"
    and dm: "dom m = set (map snd ds)"
    and nn: "list_all (\<lambda>d. m (snd d) \<noteq> Some JNull) ds"
  shows "list_all (\<lambda>d. find_component (fst d) (overlay m cs ds) \<noteq> None) ds
       \<and> collect (overlay m cs ds) ds = m \<and> overlay m cs ds \<noteq> []"
  using required_components_shape [OF rc]
proof (elim disjE exE conjE)
  fix K f
  assume one: "ds = [(K, f)]"
  from fd one obtain c where c: "find_component K cs = Some c" by auto
  from dm one have d: "dom m = {f}" by simp
  from nn one have n: "m f \<noteq> Some JNull" by simp
  have "overlay m cs [(K, f)] \<noteq> []" by (simp add: overlay_def)
  with collect_overlay_one [OF c d n] show ?thesis
    unfolding one by simp
next
  fix K f K'
  assume two: "ds = [(K, f), (K', ''maxLength'')]" and ne: "K \<noteq> K'" "f \<noteq> ''maxLength''"
  from fd two obtain c c' where c: "find_component K cs = Some c" "find_component K' cs = Some c'"
    by auto
  from dm two have d: "dom m = {f, ''maxLength''}" by simp
  from nn two have n: "m f \<noteq> Some JNull" "m ''maxLength'' \<noteq> Some JNull" by simp_all
  have "overlay m cs [(K, f), (K', ''maxLength'')] \<noteq> []" by (simp add: overlay_def)
  with collect_overlay_two [OF c ne d n] show ?thesis
    unfolding two by simp
qed

subsection \<open>The round trip\<close>

lemma rule_equality:
  fixes r :: "'e SchemaPolicyRule"
  shows "\<lparr>rule_type = rule_type r, rule_level = rule_level r, rule_engine = rule_engine r,
          rule_payload = rule_payload r, rule_comment = rule_comment r\<rparr> = r"
  by simp

lemma convertPolicyRuleToRuleTemplate_overlay:
  assumes ty: "rule_type r = template_type t"
    and nc: "template_type t \<noteq> ''naming.identifier.case''"
    and rc: "required_components (template_type t) = Some ds"
    and mt: "matching_template t"
    and m: "rule_payload r = Some m" "dom m = set (map snd ds)"
  shows "convertPolicyRuleToRuleTemplate r t =
     Inr (t\<lparr>template_engine := rule_engine r, template_level := rule_level r,
            template_comment := Some (rule_comment r),
            componentList := overlay m (componentList t) ds\<rparr>)"
proof (cases "template_type t = ''column.required''")
  case False
  from mt rc have hr: "list_all (\<lambda>d. find_component (fst d) (componentList t) \<noteq> None) ds"
    by (simp add: matching_template_def has_required_components_def)
  from required_components_shape [OF rc] hr have ne: "componentList t \<noteq> []"
    by (auto simp: find_component_def)
  show ?thesis
    using convertPolicyRuleToRuleTemplate_table [OF ty ne nc False] rc hr m(1)
    by (simp add: stored_payload_def)
next
  case True
  with rc have ds: "ds = [(''STRING_ARRAY'', ''list'')]"
    by (simp add: required_components_column_required)
  from mt rc True obtain c cs where cl: "componentList t = c # cs"
      and c: "payload_type (payload c) = ''STRING_ARRAY''"
    by (auto simp: matching_template_def split: list.splits)
  from m(2) ds have "''columnList'' \<notin> dom m" by simp
  then have cn: "m ''columnList'' = None" by (simp add: domIff)
  have f: "find_component ''STRING_ARRAY'' (componentList t) = Some c"
    using cl c by (simp add: find_component_def)
  show ?thesis
    using ty True cl cn m(1) f
    by (simp add: convertPolicyRuleToRuleTemplate_def Let_def falsy_def overlay_def ds
        string_number_rules_def template_number_rules_def)
qed

text \<open>
  C2, as the specification states it, fails twice. A stored naming.table rule whose
  payload has the format and leaves out the optional maximum length comes back with the
  maximum length of the template's default. And a stored naming.identifier.case rule with
  \<open>upper\<close> true comes back with the default false of the template: the case of that rule
  type copies the component and does not set its value.
\<close>

theorem round_trip_counterexample:
  "round_trip (stored_rule ''naming.table'' (Some [''format'' \<mapsto> JString ''^[a-z]+$'']))
     naming_table_template =
   Inr (stored_rule ''naming.table''
     (Some [''format'' \<mapsto> JString ''^[a-z]+$'', ''maxLength'' \<mapsto> JNumber 64]))
   \<and> [''format'' \<mapsto> JString ''^[a-z]+$'', ''maxLength'' \<mapsto> JNumber 64] ''maxLength''
       \<noteq> [''format'' \<mapsto> JString ''^[a-z]+$''] ''maxLength''
   \<and> round_trip (stored_rule ''naming.identifier.case'' (Some [''upper'' \<mapsto> JBool True]))
     identifier_case_template =
   Inr (stored_rule ''naming.identifier.case'' (Some [''upper'' \<mapsto> JBool False]))
   \<and> [''upper'' \<mapsto> JBool False] ''upper'' \<noteq> [''upper'' \<mapsto> JBool True] ''upper''"
  by (simp add: round_trip_def convertPolicyRuleToRuleTemplate_def
      convertRuleTemplateToPolicyRule_def mergeIndividualConfigAsRule_def Let_def
      stored_rule_def naming_table_template_def identifier_case_template_def template_of_def
      component_def find_component_def find_payload_def with_value_def current_def
      nullish_or_def string_number_rules_def template_number_rules_def)

text \<open>
  C2, amended. For every rule type other than naming.identifier.case, every well-formed
  stored rule of that type, with the payload fields of its type all present and none null,
  and every matching template, converting the stored rule to a template and back gives
  the stored rule again. The same holds for a rule type that no case of the switches
  names, with a stored rule without payload and a template without components.
\<close>

theorem round_trip_identity:
  assumes ty: "rule_type r = template_type t"
    and nc: "template_type t \<noteq> ''naming.identifier.case''"
    and mt: "matching_template t"
    and wf: "well_formed_rule r"
  shows "round_trip r t = Inr r"
proof (cases "required_components (template_type t)")
  case None
  with mt have "componentList t = []" by (simp add: matching_template_def)
  moreover from None wf ty have "rule_payload r = None" by (simp add: well_formed_rule_def)
  ultimately show ?thesis
    using ty rule_equality [of r]
    by (simp add: round_trip_def convertPolicyRuleToRuleTemplate_def
        convertRuleTemplateToPolicyRule_def Let_def)
next
  case (Some ds)
  from wf ty Some obtain m where m: "rule_payload r = Some m" "dom m = set (map snd ds)"
      and nn: "list_all (\<lambda>d. m (snd d) \<noteq> Some JNull) ds"
    by (auto simp: well_formed_rule_def split: option.splits)
  from mt Some have hr: "list_all (\<lambda>d. find_component (fst d) (componentList t) \<noteq> None) ds"
    by (simp add: matching_template_def has_required_components_def)
  define t' where "t' = t\<lparr>template_engine := rule_engine r, template_level := rule_level r,
            template_comment := Some (rule_comment r),
            componentList := overlay m (componentList t) ds\<rparr>"
  have fwd: "convertPolicyRuleToRuleTemplate r t = Inr t'"
    unfolding t'_def using ty nc Some mt m by (rule convertPolicyRuleToRuleTemplate_overlay)
  have co: "list_all (\<lambda>d. find_component (fst d) (componentList t') \<noteq> None) ds"
      "collect (componentList t') ds = m" "componentList t' \<noteq> []"
    using collect_overlay [OF Some hr m(2) nn] by (simp_all add: t'_def)
  have tt: "template_type t' = template_type t" by (simp add: t'_def)
  have "convertRuleTemplateToPolicyRule t' =
      Inr \<lparr>rule_type = rule_type r, rule_level = rule_level r, rule_engine = rule_engine r,
          rule_payload = rule_payload r, rule_comment = rule_comment r\<rparr>"
    using co Some ty m(1)
    by (simp add: convertRuleTemplateToPolicyRule_def mergeIndividualConfigAsRule_table tt)
       (simp add: t'_def)
  then show ?thesis
    using fwd by (simp add: round_trip_def)
qed

text \<open>
  A stored naming.table rule with its format and its maximum length, against the template
  of the rule type: the round trip gives the rule back.
\<close>

theorem round_trip_identity_witness:
  "rule_type (stored_rule ''naming.table''
      (Some [''format'' \<mapsto> JString ''^[a-z]+$'', ''maxLength'' \<mapsto> JNumber 32]))
     = template_type naming_table_template
   \<and> template_type naming_table_template \<noteq> ''naming.identifier.case''
   \<and> matching_template naming_table_template
   \<and> well_formed_rule (stored_rule ''naming.table''
      (Some [''format'' \<mapsto> JString ''^[a-z]+$'', ''maxLength'' \<mapsto> JNumber 32]))
   \<and> round_trip (stored_rule ''naming.table''
      (Some [''format'' \<mapsto> JString ''^[a-z]+$'', ''maxLength'' \<mapsto> JNumber 32]))
     naming_table_template =
     Inr (stored_rule ''naming.table''
      (Some [''format'' \<mapsto> JString ''^[a-z]+$'', ''maxLength'' \<mapsto> JNumber 32]))"
proof -
  have rc: "required_components ''naming.table'' =
      Some [(''STRING'', ''format''), (''NUMBER'', ''maxLength'')]"
    by (simp add: required_components_def string_number_rules_def)
  have h: "rule_type (stored_rule ''naming.table''
      (Some [''format'' \<mapsto> JString ''^[a-z]+$'', ''maxLength'' \<mapsto> JNumber 32]))
     = template_type naming_table_template"
    "template_type naming_table_template \<noteq> ''naming.identifier.case''"
    "matching_template naming_table_template"
    "well_formed_rule (stored_rule ''naming.table''
      (Some [''format'' \<mapsto> JString ''^[a-z]+$'', ''maxLength'' \<mapsto> JNumber 32]))"
    by (auto simp: stored_rule_def naming_table_template_def template_of_def rc
        matching_template_def has_required_components_def find_component_def component_def
        well_formed_rule_def)
  from h round_trip_identity [OF h] show ?thesis by simp
qed

subsection \<open>Configuration errors\<close>

text \<open>
  C3, as the specification states it, fails on a template without components. Both
  conversions test the length of the component list first and return when it is 0: the
  template of the rule type naming.table with no component, where the string and the
  number component it requires are absent, is converted in both directions with no error,
  and so is a template of a rule type that no case names.
\<close>

theorem configuration_error_counterexample:
  "convertPolicyRuleToRuleTemplate
     (stored_rule ''naming.table'' (Some [''format'' \<mapsto> JString ''^[a-z]+$'']))
     (template_of ''naming.table'' []) =
   Inr \<lparr>template_type = ''naming.table'', category = ''NAMING'', template_engine = 1,
        template_level = WARNING, componentList = [], template_comment = Some []\<rparr>
   \<and> convertRuleTemplateToPolicyRule (template_of ''naming.table'' []) =
   Inr \<lparr>rule_type = ''naming.table'', rule_level = ERROR, rule_engine = 0,
        rule_payload = None, rule_comment = []\<rparr>
   \<and> required_components ''no.such.rule'' = None
   \<and> convertPolicyRuleToRuleTemplate (stored_rule ''no.such.rule'' None)
     (template_of ''no.such.rule'' []) =
   Inr \<lparr>template_type = ''no.such.rule'', category = ''NAMING'', template_engine = 1,
        template_level = WARNING, componentList = [], template_comment = Some []\<rparr>"
  by (simp add: convertPolicyRuleToRuleTemplate_def convertRuleTemplateToPolicyRule_def
      Let_def stored_rule_def template_of_def required_components_def string_number_rules_def
      template_number_rules_def string_array_rules_def boolean_number_rules_def
      number_rules_def)

text \<open>
  C3, amended. For a template with at least one component: when its rule type is named by
  no case of the switches, or a component kind its rule type requires is the kind of none
  of its components, converting it to a stored rule throws Invalid rule, and so does
  converting a stored rule of its type to a template, for every rule type other than
  column.required in that direction: the case of column.required takes the first
  component of the list, whatever its kind, and throws nothing. A template without
  components is converted in both directions with no error and no payload. At the setup
  of Check, an error of the level or of the payload, with its format, is returned as it
  is, with no Advice and the log as it was.
\<close>

theorem configuration_errors_are_returned:
  "(componentList t \<noteq> [] \<and> \<not> has_required_components t
      \<longrightarrow> convertRuleTemplateToPolicyRule t = Inl (Invalid_rule (template_type t)))
   \<and> (rule_type r = template_type t \<and> componentList t \<noteq> []
       \<and> \<not> has_required_components t
       \<and> template_type t \<noteq> ''column.required''
      \<longrightarrow> convertPolicyRuleToRuleTemplate r t = Inl (Invalid_rule (template_type t)))
   \<and> (componentList t = []
      \<longrightarrow> convertRuleTemplateToPolicyRule t =
            Inr \<lparr>rule_type = template_type t, rule_level = template_level t,
                 rule_engine = template_engine t, rule_payload = None,
                 rule_comment = (case template_comment t of None \<Rightarrow> [] | Some c \<Rightarrow> c)\<rparr>)
   \<and> (rule_type r = template_type t \<and> componentList t = []
      \<longrightarrow> convertPolicyRuleToRuleTemplate r t =
            Inr (t\<lparr>template_engine := rule_engine r, template_level := rule_level r,
                   template_comment := Some (rule_comment r)\<rparr>))
   \<and> (AST ctx = Some tree \<and> NewStatusBySQLReviewRuleLevel fs (Level (Rule ctx)) = Inl err
      \<longrightarrow> Check fs ctx statement lg = Some (Inl err, lg))
   \<and> (AST ctx = Some tree \<and> NewStatusBySQLReviewRuleLevel fs (Level (Rule ctx)) = Inr lvl
       \<and> UnmarshalNamingRulePayloadAsRegexp fs (Payload (Rule ctx)) = Inl err
      \<longrightarrow> Check fs ctx statement lg = Some (Inl err, lg))"
proof (intro conjI impI)
  assume "componentList t \<noteq> [] \<and> \<not> has_required_components t"
  then show "convertRuleTemplateToPolicyRule t = Inl (Invalid_rule (template_type t))"
    by (auto simp: convertRuleTemplateToPolicyRule_def mergeIndividualConfigAsRule_table
        has_required_components_def split: option.splits)
next
  assume a: "rule_type r = template_type t \<and> componentList t \<noteq> []
       \<and> \<not> has_required_components t
       \<and> template_type t \<noteq> ''column.required''"
  show "convertPolicyRuleToRuleTemplate r t = Inl (Invalid_rule (template_type t))"
  proof (cases "template_type t = ''naming.identifier.case''")
    case True
    with a have "find_component ''BOOLEAN'' (componentList t) = None"
      by (simp add: has_required_components_def required_components_def
          string_number_rules_def template_number_rules_def)
    with a True show ?thesis
      by (simp add: convertPolicyRuleToRuleTemplate_def Let_def string_number_rules_def
          template_number_rules_def)
  next
    case False
    with a have "convertPolicyRuleToRuleTemplate r t =
       (case required_components (template_type t) of
          None \<Rightarrow> Inl (Invalid_rule (template_type t))
        | Some ds \<Rightarrow>
            if list_all (\<lambda>d. find_component (fst d) (componentList t) \<noteq> None) ds
            then Inr (t\<lparr>template_engine := rule_engine r, template_level := rule_level r,
                       template_comment := Some (rule_comment r),
                       componentList := overlay (stored_payload r) (componentList t) ds\<rparr>)
            else Inl (Invalid_rule (template_type t)))"
      by (intro convertPolicyRuleToRuleTemplate_table) simp_all
    with a show ?thesis
      by (auto simp: has_required_components_def split: option.splits)
  qed
next
  assume "componentList t = []"
  then show "convertRuleTemplateToPolicyRule t =
            Inr \<lparr>rule_type = template_type t, rule_level = template_level t,
                 rule_engine = template_engine t, rule_payload = None,
                 rule_comment = (case template_comment t of None \<Rightarrow> [] | Some c \<Rightarrow> c)\<rparr>"
    by (simp add: convertRuleTemplateToPolicyRule_def)
next
  assume "rule_type r = template_type t \<and> componentList t = []"
  then show "convertPolicyRuleToRuleTemplate r t =
            Inr (t\<lparr>template_engine := rule_engine r, template_level := rule_level r,
                   template_comment := Some (rule_comment r)\<rparr>)"
    by (simp add: convertPolicyRuleToRuleTemplate_def)
next
  assume "AST ctx = Some tree \<and> NewStatusBySQLReviewRuleLevel fs (Level (Rule ctx)) = Inl err"
  then show "Check fs ctx statement lg = Some (Inl err, lg)"
    by (simp add: Check_def)
next
  assume "AST ctx = Some tree \<and> NewStatusBySQLReviewRuleLevel fs (Level (Rule ctx)) = Inr lvl
       \<and> UnmarshalNamingRulePayloadAsRegexp fs (Payload (Rule ctx)) = Inl err"
  then show "Check fs ctx statement lg = Some (Inl err, lg)"
    by (simp add: Check_def)
qed

text \<open>
  A naming.table template that has the number component and lacks the string component, a
  naming.identifier.case template that lacks the boolean component, a stored rule of a
  rule type that no case names, a rule of level INFO and a payload that does not
  unmarshal: an error each, and no Advice.
\<close>

theorem configuration_errors_are_returned_witness:
  "convertRuleTemplateToPolicyRule
     (template_of ''naming.table'' [component ''maxLength'' ''NUMBER'' (JNumber 64)]) =
   Inl (JsError ''Invalid rule naming.table'')
   \<and> convertPolicyRuleToRuleTemplate (stored_rule ''naming.table'' None)
     (template_of ''naming.table'' [component ''maxLength'' ''NUMBER'' (JNumber 64)]) =
   Inl (JsError ''Invalid rule naming.table'')
   \<and> convertPolicyRuleToRuleTemplate
     (stored_rule ''naming.identifier.case'' (Some [''upper'' \<mapsto> JBool True]))
     (template_of ''naming.identifier.case'' [component ''maxLength'' ''NUMBER'' (JNumber 64)]) =
   Inl (JsError ''Invalid rule naming.identifier.case'')
   \<and> convertRuleTemplateToPolicyRule
     (template_of ''naming.identifier.case'' [component ''maxLength'' ''NUMBER'' (JNumber 64)]) =
   Inl (JsError ''Invalid rule naming.identifier.case'')
   \<and> convertPolicyRuleToRuleTemplate (stored_rule ''no.such.rule'' None)
     (template_of ''no.such.rule'' [component ''text'' ''STRING'' (JString [])]) =
   Inl (JsError ''Invalid rule no.such.rule'')
   \<and> Check (funcs snake_case 0) (context_of (create_table_stmt ''UserOrders'' 1) ''INFO'')
     ''CREATE TABLE UserOrders (id INT)'' [] =
   Some (Inl (Errorf ''unexpected rule level type: INFO''), [])
   \<and> Check ((funcs snake_case 0)
        \<lparr>UnmarshalNamingRulePayloadAsRegexp := \<lambda>p. Inl (Errorf ''error parsing regexp'')\<rparr>)
     (context_of (create_table_stmt ''UserOrders'' 1) ''WARNING'')
     ''CREATE TABLE UserOrders (id INT)'' [] =
   Some (Inl (Errorf ''error parsing regexp''), [])"
  using
    configuration_errors_are_returned [where
      t = "template_of ''naming.table'' [component ''maxLength'' ''NUMBER'' (JNumber 64)]"
      and r = "stored_rule ''naming.table'' None"
      and fs = "funcs snake_case 0"
      and ctx = "context_of (create_table_stmt ''UserOrders'' 1) ''INFO''"
      and tree = "create_table_stmt ''UserOrders'' 1"
      and err = "Errorf ''unexpected rule level type: INFO''"
      and statement = "''CREATE TABLE UserOrders (id INT)''" and lg = "[]" and lvl = Warn]
    configuration_errors_are_returned [where
      t = "template_of ''no.such.rule'' [component ''text'' ''STRING'' (JString [])]"
      and r = "stored_rule ''no.such.rule'' None"
      and fs = "(funcs snake_case 0)
        \<lparr>UnmarshalNamingRulePayloadAsRegexp := \<lambda>p. Inl (Errorf ''error parsing regexp'')\<rparr>"
      and ctx = "context_of (create_table_stmt ''UserOrders'' 1) ''WARNING''"
      and tree = "create_table_stmt ''UserOrders'' 1"
      and err = "Errorf ''error parsing regexp''"
      and statement = "''CREATE TABLE UserOrders (id INT)''" and lg = "[]" and lvl = Warn]
    configuration_errors_are_returned [where
      t = "template_of ''naming.identifier.case'' [component ''maxLength'' ''NUMBER'' (JNumber 64)]"
      and r = "stored_rule ''naming.identifier.case'' (Some [''upper'' \<mapsto> JBool True])"
      and fs = "funcs snake_case 0"
      and ctx = "context_of (create_table_stmt ''UserOrders'' 1) ''INFO''"
      and tree = "create_table_stmt ''UserOrders'' 1"
      and err = "Errorf ''unexpected rule level type: INFO''"
      and statement = "''CREATE TABLE UserOrders (id INT)''" and lg = "[]" and lvl = Warn]
  by (simp add: has_required_components_def required_components_def template_of_def
      stored_rule_def component_def find_component_def Invalid_rule_def
      string_number_rules_def template_number_rules_def string_array_rules_def
      boolean_number_rules_def number_rules_def context_of_def naming_rule_def funcs_def)

subsection \<open>The required columns\<close>

text \<open>
  C10. For the rule type column.required, converting a stored rule to a template takes the
  first component of the template's list, whatever its kind, and gives it as value the
  stored field columnList, or the stored field list when columnList is absent (or is
  null, false, 0 or the empty string, the values that \<^verbatim>\<open>!value\<close> takes for absent). A
  stored columnList that is an array, even an empty one, is the value, and the field list
  is not read.
\<close>

theorem column_required_reads_columnList_first:
  assumes "rule_type r = ''column.required''" and "template_type t = ''column.required''"
    and "componentList t = c # cs"
  shows "convertPolicyRuleToRuleTemplate r t =
     Inr (t\<lparr>template_engine := rule_engine r, template_level := rule_level r,
            template_comment := Some (rule_comment r),
            componentList :=
              [c\<lparr>payload := (payload c)\<lparr>payload_value :=
                  (if falsy (stored_payload r ''columnList'') then stored_payload r ''list''
                   else stored_payload r ''columnList'')\<rparr>\<rparr>]\<rparr>)
     \<and> (stored_payload r ''columnList'' = Some (JStringArray xs)
          \<longrightarrow> \<not> falsy (stored_payload r ''columnList''))
     \<and> (stored_payload r ''columnList'' = None \<longrightarrow> falsy (stored_payload r ''columnList''))"
  using assms
  by (simp add: convertPolicyRuleToRuleTemplate_def Let_def with_value_def stored_payload_def
      falsy_def string_number_rules_def template_number_rules_def)

text \<open>
  A stored rule with both fields against a template whose first component is a number
  component: the number component gets the array of columnList as its value. A stored
  rule with the field list alone gets that array.
\<close>

theorem column_required_reads_columnList_first_witness:
  "convertPolicyRuleToRuleTemplate
     (stored_rule ''column.required''
        (Some [''columnList'' \<mapsto> JStringArray [''id''], ''list'' \<mapsto> JStringArray [''created_ts'']]))
     (template_of ''column.required''
        [component ''count'' ''NUMBER'' (JNumber 0), component ''list'' ''STRING_ARRAY'' (JStringArray [])]) =
   Inr \<lparr>template_type = ''column.required'', category = ''NAMING'', template_engine = 1,
        template_level = WARNING,
        componentList =
          [\<lparr>key = ''count'',
            payload = \<lparr>payload_type = ''NUMBER'', payload_default = JNumber 0,
                       templateList = None, payload_value = Some (JStringArray [''id''])\<rparr>\<rparr>],
        template_comment = Some []\<rparr>
   \<and> convertPolicyRuleToRuleTemplate
     (stored_rule ''column.required'' (Some [''list'' \<mapsto> JStringArray [''created_ts'']]))
     (template_of ''column.required'' [component ''list'' ''STRING_ARRAY'' (JStringArray [])]) =
   Inr \<lparr>template_type = ''column.required'', category = ''NAMING'', template_engine = 1,
        template_level = WARNING,
        componentList =
          [\<lparr>key = ''list'',
            payload = \<lparr>payload_type = ''STRING_ARRAY'', payload_default = JStringArray [],
                       templateList = None, payload_value = Some (JStringArray [''created_ts''])\<rparr>\<rparr>],
        template_comment = Some []\<rparr>"
  using
    column_required_reads_columnList_first [where
      r = "stored_rule ''column.required''
        (Some [''columnList'' \<mapsto> JStringArray [''id''], ''list'' \<mapsto> JStringArray [''created_ts'']])"
      and t = "template_of ''column.required''
        [component ''count'' ''NUMBER'' (JNumber 0), component ''list'' ''STRING_ARRAY'' (JStringArray [])]"
      and c = "component ''count'' ''NUMBER'' (JNumber 0)"
      and cs = "[component ''list'' ''STRING_ARRAY'' (JStringArray [])]"
      and xs = "[''id'']"]
    column_required_reads_columnList_first [where
      r = "stored_rule ''column.required'' (Some [''list'' \<mapsto> JStringArray [''created_ts'']])"
      and t = "template_of ''column.required'' [component ''list'' ''STRING_ARRAY'' (JStringArray [])]"
      and c = "component ''list'' ''STRING_ARRAY'' (JStringArray [])"
      and cs = "[]" and xs = "[]"]
  by (simp add: stored_rule_def template_of_def component_def stored_payload_def falsy_def)

end
